theory Spec2Isabelle
  imports Complex_Main
begin

section \<open>JavaScript numbers\<close>

text \<open>
  The cloud functions compute money amounts and hour differences with JavaScript numbers.
  A number is modelled as an exact rational or \<open>NaN\<close>; the rounding error of binary
  floating point is not modelled. Arithmetic propagates \<open>NaN\<close>, every comparison with
  \<open>NaN\<close> is false, and \<open>Math.round\<close> rounds half up.
\<close>

datatype number = Num rat | NaN

fun js_mul :: "number \<Rightarrow> number \<Rightarrow> number" where
  "js_mul (Num a) (Num b) = Num (a * b)"
| "js_mul _ _ = NaN"

fun js_add :: "number \<Rightarrow> number \<Rightarrow> number" where
  "js_add (Num a) (Num b) = Num (a + b)"
| "js_add _ _ = NaN"

fun js_sub :: "number \<Rightarrow> number \<Rightarrow> number" where
  "js_sub (Num a) (Num b) = Num (a - b)"
| "js_sub _ _ = NaN"

fun js_neg :: "number \<Rightarrow> number" where
  "js_neg (Num a) = Num (- a)"
| "js_neg NaN = NaN"

fun Math_round :: "number \<Rightarrow> number" where
  "Math_round (Num a) = Num (of_int \<lfloor>a + 1 / 2\<rfloor>)"
| "Math_round NaN = NaN"

fun js_lt :: "number \<Rightarrow> number \<Rightarrow> bool" where
  "js_lt (Num a) (Num b) = (a < b)"
| "js_lt _ _ = False"

fun js_gt :: "number \<Rightarrow> number \<Rightarrow> bool" where
  "js_gt (Num a) (Num b) = (b < a)"
| "js_gt _ _ = False"

text \<open>\<open>===\<close> on numbers: \<open>NaN\<close> is not equal to itself.\<close>

fun js_eq :: "number \<Rightarrow> number \<Rightarrow> bool" where
  "js_eq (Num a) (Num b) = (a = b)"
| "js_eq _ _ = False"

text \<open>Truthiness of a number: \<open>0\<close> and \<open>NaN\<close> are falsy.\<close>

fun truthy :: "number \<Rightarrow> bool" where
  "truthy (Num a) = (a \<noteq> 0)"
| "truthy NaN = False"

text \<open>
  A document field that may be absent is an option; reading an absent field gives
  \<open>undefined\<close>, which arithmetic converts to \<open>NaN\<close> and which \<open>||\<close> replaces by its
  right operand, as it does every falsy value.
\<close>

fun to_number :: "number option \<Rightarrow> number" where
  "to_number None = NaN"
| "to_number (Some x) = x"

fun js_or :: "number option \<Rightarrow> number \<Rightarrow> number" where
  "js_or None d = d"
| "js_or (Some x) d = (if truthy x then x else d)"

section \<open>Documents and collections\<close>

text \<open>
  Instants are milliseconds since the epoch (\<open>Date.getTime()\<close>); request dates are the
  instants their ISO strings parse to. User ids are strings. A booking id is the position
  of the booking in the \<open>bookings\<close> collection: a freshly generated document id is the
  next free position. Fields that no modelled guard reads and no amount depends on
  (location, category, focus, QR codes, free-text notes, \<open>updatedAt\<close>) are left out.
\<close>

type_synonym uid = string

datatype ErrorCodes = UNAUTHORIZED | VALIDATION_ERROR | NOT_FOUND

text \<open>
  \<open>FunctionError code message httpStatus\<close> is the error a function throws on purpose;
  \<open>InternalError\<close> is any other exception (for example Firestore's \<open>update\<close> of a
  document that does not exist), reported to the caller as \<open>internal\<close>.
\<close>

datatype error = FunctionError ErrorCodes string nat | InternalError

datatype BookingStatus = PENDENTE | CONFIRMADA | CONCLUIDA | CANCELADA

datatype PaymentStatus = PAY_PENDENTE | DEPOSITO_PAGO | PAGO | REEMBOLSADO

datatype userType = Student | Instructor

record Booking =
  studentId :: uid
  instructorId :: uid
  date :: int
  duration :: number
  status :: BookingStatus
  paymentStatus :: PaymentStatus
  rescheduleCount :: nat
  price :: number
  depositAmount :: number
  remainingAmount :: number
  createdAt :: int
  pricePerHour :: "number option"
  confirmedAt :: "int option"
  completedAt :: "int option"
  cancelledAt :: "int option"
  cancelledBy :: "userType option"
  cancellationReason :: "string option"
  refundAmount :: "number option"
  penaltyAmount :: "number option"
  rescheduleFee :: "number option"
  totalPrice :: "number option"
  actualDuration :: "number option"

record InstructorDoc =
  i_status :: string
  i_pricePerHour :: "number option"
  i_cpf :: "string option"
  i_vehicle_plate :: "string option"
  wallet_available :: number
  wallet_total :: number
  wallet_penalties :: number

record StudentDoc =
  st_cpf :: "string option"

record CalendarSlot =
  s_date :: int
  s_reserved :: bool
  s_bookingId :: "nat option"

record BookingTimeout =
  t_bookingId :: nat
  t_scheduledFor :: int
  t_processed :: bool
  t_cancelled :: bool

record PaymentRelease =
  pr_bookingId :: nat
  pr_instructorId :: uid
  pr_totalAmount :: number
  pr_platformFee :: number
  pr_instructorAmount :: number
  pr_scheduledFor :: int
  pr_processed :: bool

record Refund =
  rf_bookingId :: nat
  rf_studentId :: "uid option"
  rf_amount :: number
  rf_reason :: string

record Payment =
  p_bookingId :: nat
  p_studentId :: uid
  p_amount :: number
  p_type :: string
  p_status :: string

record PaymentIntent =
  pi_bookingId :: nat
  pi_amount :: number

record Notification =
  n_userId :: uid
  n_type :: string
  n_bookingId :: "nat option"

record WalletTransaction =
  w_userId :: uid
  w_type :: string
  w_amount :: number
  w_bookingId :: nat

record DetranValidation =
  dv_bookingId :: nat
  dv_cpf_aluno :: string
  dv_cpf_instrutor :: string
  dv_duracao_horas :: number
  dv_veiculo_placa :: string
  dv_status :: string
  dv_attempts :: nat

text \<open>
  The calendar subcollection \<open>instructors/{id}/calendar/{key}\<close> is a map from the
  instructor and the slot key to the slot document.
\<close>

record db =
  bookings :: "Booking list"
  calendar :: "uid \<times> int \<rightharpoonup> CalendarSlot"
  instructors :: "uid \<rightharpoonup> InstructorDoc"
  students :: "uid \<rightharpoonup> StudentDoc"
  bookingTimeouts :: "BookingTimeout list"
  paymentReleaseQueue :: "PaymentRelease list"
  refunds :: "Refund list"
  payments :: "Payment list"
  paymentIntents :: "PaymentIntent list"
  notifications :: "Notification list"
  walletTransactions :: "WalletTransaction list"
  detranValidationQueue :: "DetranValidation list"

text \<open>
  \<open>formatDateKey\<close> prints the local year, month, day and hour of an instant as
  \<open>YYYY-MM-DD-HH\<close>. Two instants get the same string exactly when they lie in the same
  calendar hour, so the key is represented by the index of that hour (in UTC, the time
  zone the functions run in unless configured otherwise).
\<close>

definition formatDateKey :: "int \<Rightarrow> int" where
  "formatDateKey d = d div 3600000"

definition getBooking :: "db \<Rightarrow> nat \<Rightarrow> Booking option" where
  "getBooking d bid = (if bid < length (bookings d) then Some (bookings d ! bid) else None)"

definition updateBooking :: "nat \<Rightarrow> (Booking \<Rightarrow> Booking) \<Rightarrow> db \<Rightarrow> db" where
  "updateBooking bid f d = d\<lparr>bookings := (bookings d)[bid := f (bookings d ! bid)]\<rparr>"

definition isActive :: "Booking \<Rightarrow> bool" where
  "isActive b = (status b = PENDENTE \<or> status b = CONFIRMADA)"

text \<open>
  The query \<open>where instructorId == i, date == t, status in [pendente, confirmada]\<close>.
\<close>

definition existingBookings :: "db \<Rightarrow> uid \<Rightarrow> int \<Rightarrow> Booking list" where
  "existingBookings d i t =
     filter (\<lambda>b. instructorId b = i \<and> date b = t \<and> isActive b) (bookings d)"

definition slotReserved :: "db \<Rightarrow> uid \<Rightarrow> int \<Rightarrow> bool" where
  "slotReserved d i k = (case calendar d (i, k) of None \<Rightarrow> False | Some s \<Rightarrow> s_reserved s)"

definition addNotification :: "uid \<Rightarrow> string \<Rightarrow> nat option \<Rightarrow> db \<Rightarrow> db" where
  "addNotification u ty b d =
     d\<lparr>notifications := notifications d @ [\<lparr>n_userId = u, n_type = ty, n_bookingId = b\<rparr>]\<rparr>"

section \<open>createBooking\<close>

text \<open>
  The request type makes \<open>location\<close>, \<open>category\<close> and \<open>focus\<close> mandatory; a request
  is taken to carry them, so that the booking document is written without an
  \<open>undefined\<close> field.
\<close>

record BookingCreateRequest =
  c_instructorId :: uid
  c_date :: "int option"
  c_duration :: number

text \<open>
  \<open>processDepositPayment\<close> stores the pending PIX payment of the deposit;
  \<open>scheduleAcceptanceTimeout\<close> stores the timeout job of the acceptance window.
\<close>

definition processDepositPayment :: "nat \<Rightarrow> uid \<Rightarrow> number \<Rightarrow> db \<Rightarrow> db" where
  "processDepositPayment bookingId sid amount d =
     d\<lparr>payments := payments d @
        [\<lparr>p_bookingId = bookingId, p_studentId = sid, p_amount = amount,
          p_type = ''deposit'', p_status = ''pendente''\<rparr>]\<rparr>"

definition scheduleAcceptanceTimeout :: "nat \<Rightarrow> int \<Rightarrow> int \<Rightarrow> db \<Rightarrow> db" where
  "scheduleAcceptanceTimeout bookingId delayMs now d =
     d\<lparr>bookingTimeouts := bookingTimeouts d @
        [\<lparr>t_bookingId = bookingId, t_scheduledFor = now + delayMs,
          t_processed = False, t_cancelled = False\<rparr>]\<rparr>"

definition newBooking :: "uid \<Rightarrow> uid \<Rightarrow> int \<Rightarrow> number \<Rightarrow> number \<Rightarrow> number \<Rightarrow> number \<Rightarrow> int \<Rightarrow> Booking" where
  "newBooking sid iid bookingDate dur tot dep rmn now =
     \<lparr>studentId = sid, instructorId = iid, date = bookingDate, duration = dur,
      status = PENDENTE, paymentStatus = PAY_PENDENTE, rescheduleCount = 0,
      price = tot, depositAmount = dep, remainingAmount = rmn,
      createdAt = now, pricePerHour = None, confirmedAt = None, completedAt = None,
      cancelledAt = None, cancelledBy = None, cancellationReason = None,
      refundAmount = None, penaltyAmount = None, rescheduleFee = None,
      totalPrice = None, actualDuration = None\<rparr>"

text \<open>
  The transaction of \<open>createBooking\<close>: both reads, then both writes, applied together or
  not at all. It returns the new booking id.
\<close>

definition createTransaction ::
  "uid \<Rightarrow> uid \<Rightarrow> int \<Rightarrow> number \<Rightarrow> number \<Rightarrow> number \<Rightarrow> number \<Rightarrow> int \<Rightarrow> db \<Rightarrow> error + (nat \<times> db)" where
  "createTransaction sid iid bookingDate dur tot dep rmn now d =
     (if existingBookings d iid bookingDate \<noteq> [] then
        Inl (FunctionError VALIDATION_ERROR ''This time slot is already booked'' 409)
      else if slotReserved d iid (formatDateKey bookingDate) then
        Inl (FunctionError VALIDATION_ERROR ''Calendar slot is reserved'' 409)
      else
        let bookingId = length (bookings d) in
        Inr (bookingId,
          d\<lparr>bookings := bookings d @
                [newBooking sid iid bookingDate dur tot dep rmn now],
            calendar := (calendar d)((iid, formatDateKey bookingDate) \<mapsto>
                \<lparr>s_date = bookingDate, s_reserved = True, s_bookingId = Some bookingId\<rparr>)\<rparr>))"

definition createBooking ::
  "uid option \<Rightarrow> BookingCreateRequest \<Rightarrow> int \<Rightarrow> db \<Rightarrow> (error + nat) \<times> db" where
  "createBooking auth data now d =
     (case auth of
        None \<Rightarrow> (Inl (FunctionError UNAUTHORIZED ''User must be authenticated'' 401), d)
      | Some sid \<Rightarrow>
        (case c_date data of
           None \<Rightarrow>
             (Inl (FunctionError VALIDATION_ERROR
                ''Instructor ID, date, and duration are required'' 400), d)
         | Some bookingDate \<Rightarrow>
             if c_instructorId data = [] \<or> \<not> truthy (c_duration data) then
               (Inl (FunctionError VALIDATION_ERROR
                  ''Instructor ID, date, and duration are required'' 400), d)
             else if js_lt (c_duration data) (Num 1) \<or> js_gt (c_duration data) (Num 4) then
               (Inl (FunctionError VALIDATION_ERROR
                  ''Duration must be between 1 and 4 hours'' 400), d)
             else if bookingDate \<le> now then
               (Inl (FunctionError VALIDATION_ERROR
                  ''Booking date must be in the future'' 400), d)
             else
               (case instructors d (c_instructorId data) of
                  None \<Rightarrow> (Inl (FunctionError NOT_FOUND ''Instructor not found'' 404), d)
                | Some instructor \<Rightarrow>
                    if i_status instructor = ''aprovado'' then
                      let pph = js_or (i_pricePerHour instructor) (Num 80);
                          tot = js_mul pph (c_duration data);
                          dep = Math_round (js_mul tot (Num 0.2));
                          rmn = js_sub tot dep
                      in (case createTransaction sid (c_instructorId data) bookingDate
                                 (c_duration data) tot dep rmn now d of
                            Inl e \<Rightarrow> (Inl e, d)
                          | Inr (bookingId, d1) \<Rightarrow>
                              (Inr bookingId,
                               addNotification (c_instructorId data) ''new_booking''
                                 (Some bookingId)
                                 (scheduleAcceptanceTimeout bookingId (2 * 60 * 60 * 1000) now
                                   (processDepositPayment bookingId sid dep d1))))
                    else
                      (Inl (FunctionError VALIDATION_ERROR
                         ''Instructor is not approved'' 400), d))))"

section \<open>confirmBooking\<close>

fun statusString :: "BookingStatus \<Rightarrow> string" where
  "statusString PENDENTE = ''pendente''"
| "statusString CONFIRMADA = ''confirmada''"
| "statusString CONCLUIDA = ''concluida''"
| "statusString CANCELADA = ''cancelada''"

text \<open>
  \<open>updatePaymentIntent\<close> records the scheduled charge of the remaining amount;
  \<open>cancelTimeoutJob\<close> marks every unprocessed timeout job of the booking processed and
  cancelled, in one batch.
\<close>

definition updatePaymentIntent :: "nat \<Rightarrow> number \<Rightarrow> db \<Rightarrow> db" where
  "updatePaymentIntent bookingId remaining d =
     d\<lparr>paymentIntents := paymentIntents d @
        [\<lparr>pi_bookingId = bookingId, pi_amount = remaining\<rparr>]\<rparr>"

definition cancelTimeoutJob :: "nat \<Rightarrow> db \<Rightarrow> db" where
  "cancelTimeoutJob bookingId d =
     d\<lparr>bookingTimeouts :=
        map (\<lambda>t. if t_bookingId t = bookingId \<and> t_processed t = False
                 then t\<lparr>t_processed := True, t_cancelled := True\<rparr> else t)
            (bookingTimeouts d)\<rparr>"

definition confirmBooking :: "uid option \<Rightarrow> nat option \<Rightarrow> int \<Rightarrow> db \<Rightarrow> (error + nat) \<times> db" where
  "confirmBooking auth bookingId now d =
     (case auth of
        None \<Rightarrow> (Inl (FunctionError UNAUTHORIZED ''User must be authenticated'' 401), d)
      | Some iid \<Rightarrow>
        (case bookingId of
           None \<Rightarrow> (Inl (FunctionError VALIDATION_ERROR ''Booking ID is required'' 400), d)
         | Some bid \<Rightarrow>
           (case getBooking d bid of
              None \<Rightarrow> (Inl (FunctionError NOT_FOUND ''Booking not found'' 404), d)
            | Some booking \<Rightarrow>
                if instructorId booking \<noteq> iid then
                  (Inl (FunctionError UNAUTHORIZED
                     ''Only the assigned instructor can confirm this booking'' 403), d)
                else if status booking \<noteq> PENDENTE then
                  (Inl (FunctionError VALIDATION_ERROR
                     (''Booking is already '' @ statusString (status booking)) 400), d)
                else if (of_int (now - createdAt booking) :: rat) / (1000 * 60 * 60) > 2 then
                  (Inl (FunctionError VALIDATION_ERROR
                     ''Acceptance window expired (2 hours)'' 403), d)
                else
                  (Inr bid,
                   addNotification (studentId booking) ''booking_confirmed'' (Some bid)
                     (cancelTimeoutJob bid
                       (updatePaymentIntent bid (remainingAmount booking)
                         (updateBooking bid
                            (\<lambda>b. b\<lparr>status := CONFIRMADA, confirmedAt := Some now\<rparr>) d)))))))"

section \<open>cancelBooking\<close>

record CancellationPolicy =
  refundPercentage :: number
  policy_penaltyAmount :: number
  reason :: string

text \<open>The reasons are the source's Portuguese messages, written without accents.\<close>

definition calculateCancellationPolicy ::
  "userType \<Rightarrow> rat \<Rightarrow> number \<Rightarrow> number \<Rightarrow> CancellationPolicy" where
  "calculateCancellationPolicy userType' hoursUntilBooking totalPrice' depositAmount' =
     (if userType' = Student then
        (if hoursUntilBooking < 24 then
           \<lparr>refundPercentage = Num 1.0, policy_penaltyAmount = Num 0,
            reason = ''Cancelamento gratuito (menos de 24h antes da aula)''\<rparr>
         else
           \<lparr>refundPercentage = Num 0.5, policy_penaltyAmount = js_mul totalPrice' (Num 0.5),
            reason = ''Cancelamento com multa de 50% (mais de 24h antes da aula)''\<rparr>)
      else
        (if hoursUntilBooking < 12 then
           \<lparr>refundPercentage = Num 1.0, policy_penaltyAmount = totalPrice',
            reason = ''Cancelamento pelo instrutor com menos de 12h (multa de 100%)''\<rparr>
         else
           \<lparr>refundPercentage = Num 1.0, policy_penaltyAmount = Num 0,
            reason = ''Cancelamento pelo instrutor sem multa''\<rparr>))"

definition processRefund :: "nat \<Rightarrow> uid \<Rightarrow> number \<Rightarrow> string \<Rightarrow> db \<Rightarrow> db" where
  "processRefund bookingId sid amount why d =
     d\<lparr>refunds := refunds d @
        [\<lparr>rf_bookingId = bookingId, rf_studentId = Some sid, rf_amount = amount,
          rf_reason = why\<rparr>]\<rparr>"

text \<open>
  \<open>applyInstructorPenalty\<close> catches its own exceptions: when the instructor document
  does not exist the wallet update throws, and neither the wallet nor the transaction log
  changes.
\<close>

definition applyInstructorPenalty :: "uid \<Rightarrow> number \<Rightarrow> nat \<Rightarrow> db \<Rightarrow> db" where
  "applyInstructorPenalty iid pen bookingId d =
     (case instructors d iid of
        None \<Rightarrow> d
      | Some i \<Rightarrow>
          d\<lparr>instructors := (instructors d)(iid \<mapsto>
                i\<lparr>wallet_available := js_add (wallet_available i) (js_neg pen),
                  wallet_penalties := js_add (wallet_penalties i) pen\<rparr>),
            walletTransactions := walletTransactions d @
                [\<lparr>w_userId = iid, w_type = ''penalty'', w_amount = js_neg pen,
                  w_bookingId = bookingId\<rparr>]\<rparr>)"

record BookingCancelRequest =
  x_bookingId :: "nat option"
  x_userType :: userType
  x_reason :: "string option"

record CancelResult =
  res_refundAmount :: number
  res_penaltyAmount :: number

text \<open>\<open>data.reason || policy.reason\<close>: an absent or empty reason is falsy.\<close>

fun reason_or :: "string option \<Rightarrow> string \<Rightarrow> string" where
  "reason_or None r = r"
| "reason_or (Some s) r = (if s = [] then r else s)"

text \<open>
  The writes of \<open>cancelBooking\<close> are separate awaits, not a transaction: the booking is
  updated first, then the calendar slot, and \<open>update\<close> of a slot document that does not
  exist throws after the booking has already been written.
\<close>

definition cancelBooking ::
  "uid option \<Rightarrow> BookingCancelRequest \<Rightarrow> int \<Rightarrow> db \<Rightarrow> (error + CancelResult) \<times> db" where
  "cancelBooking auth data now d =
     (case auth of
        None \<Rightarrow> (Inl (FunctionError UNAUTHORIZED ''User must be authenticated'' 401), d)
      | Some userId \<Rightarrow>
        (case x_bookingId data of
           None \<Rightarrow>
             (Inl (FunctionError VALIDATION_ERROR
                ''Booking ID and user type are required'' 400), d)
         | Some bid \<Rightarrow>
           (case getBooking d bid of
              None \<Rightarrow> (Inl (FunctionError NOT_FOUND ''Booking not found'' 404), d)
            | Some booking \<Rightarrow>
                if x_userType data = Student \<and> studentId booking \<noteq> userId then
                  (Inl (FunctionError UNAUTHORIZED
                     ''Only the student can cancel this booking'' 403), d)
                else if x_userType data = Instructor \<and> instructorId booking \<noteq> userId then
                  (Inl (FunctionError UNAUTHORIZED
                     ''Only the instructor can cancel this booking'' 403), d)
                else if status booking = CANCELADA then
                  (Inl (FunctionError VALIDATION_ERROR ''Booking is already cancelled'' 400), d)
                else if status booking = CONCLUIDA then
                  (Inl (FunctionError VALIDATION_ERROR
                     ''Cannot cancel completed booking'' 400), d)
                else
                  let bookingDate = date booking;
                      hoursUntilBooking = (of_int (bookingDate - now) :: rat) / (1000 * 60 * 60);
                      policy = calculateCancellationPolicy (x_userType data) hoursUntilBooking
                                 (price booking) (depositAmount booking);
                      d1 = updateBooking bid
                             (\<lambda>b. b\<lparr>status := CANCELADA,
                                    cancellationReason :=
                                      Some (reason_or (x_reason data) (reason policy)),
                                    cancelledBy := Some (x_userType data),
                                    cancelledAt := Some now,
                                    refundAmount :=
                                      Some (js_mul (refundPercentage policy) (price booking)),
                                    penaltyAmount := Some (policy_penaltyAmount policy)\<rparr>) d;
                      key = (instructorId booking, formatDateKey bookingDate)
                  in (case calendar d1 key of
                        None \<Rightarrow> (Inl InternalError, d1)
                      | Some slot \<Rightarrow>
                          let d2 = d1\<lparr>calendar := (calendar d1)(key \<mapsto>
                                      slot\<lparr>s_reserved := False, s_bookingId := None\<rparr>)\<rparr>;
                              refundAmount' =
                                Math_round (js_mul (refundPercentage policy) (price booking));
                              d3 = (if js_gt refundAmount' (Num 0)
                                    then processRefund bid (studentId booking) refundAmount' (reason policy) d2
                                    else d2);
                              d4 = (if js_gt (policy_penaltyAmount policy) (Num 0)
                                       \<and> x_userType data = Instructor
                                    then applyInstructorPenalty (instructorId booking)
                                           (policy_penaltyAmount policy) bid d3
                                    else d3);
                              otherUserId = (if x_userType data = Student
                                             then instructorId booking else studentId booking)
                          in (Inr \<lparr>res_refundAmount = refundAmount',
                                   res_penaltyAmount = policy_penaltyAmount policy\<rparr>,
                              addNotification otherUserId ''booking_cancelled'' (Some bid) d4)))))"

section \<open>rescheduleBooking\<close>

record BookingRescheduleRequest =
  rs_bookingId :: "nat option"
  rs_newDate :: "int option"
  rs_newDuration :: "number option"

text \<open>\<open>if (data.newDuration)\<close>: the duration is present and truthy.\<close>

fun given :: "number option \<Rightarrow> bool" where
  "given None = False"
| "given (Some x) = truthy x"

text \<open>
  The \<open>updates\<close> object of the transaction, applied to the booking document. The new
  price is read from \<open>booking.pricePerHour\<close>, a field of the booking document;
  \<open>updates.totalPrice\<close> is \<open>(updates.price || booking.price) + fee\<close>.
\<close>

definition rescheduleUpdates :: "Booking \<Rightarrow> int \<Rightarrow> number option \<Rightarrow> number \<Rightarrow> Booking" where
  "rescheduleUpdates booking newBookingDate newDuration fee =
     (let b1 = booking\<lparr>date := newBookingDate,
                        rescheduleCount := rescheduleCount booking + 1\<rparr>;
          b2 = (if given newDuration
                then b1\<lparr>duration := to_number newDuration,
                        price := js_mul (to_number (pricePerHour booking))
                                   (to_number newDuration)\<rparr>
                else b1)
      in if js_gt fee (Num 0)
         then b2\<lparr>rescheduleFee := Some fee,
                 totalPrice := Some (js_add
                   (if given newDuration then js_or (Some (price b2)) (price booking)
                    else price booking) fee)\<rparr>
         else b2)"

definition rescheduleFeeOf :: "Booking \<Rightarrow> number" where
  "rescheduleFeeOf booking =
     (if rescheduleCount booking > 0 then Math_round (js_mul (price booking) (Num 0.1))
      else Num 0)"

text \<open>
  The transaction of \<open>rescheduleBooking\<close>. The new slot is checked against the active
  bookings of the instructor at exactly the new date; the calendar document of the new
  slot is written, never read. \<open>update\<close> of the old slot document fails the transaction
  when that document does not exist.
\<close>

definition rescheduleTransaction :: "uid \<Rightarrow> nat \<Rightarrow> int \<Rightarrow> number option \<Rightarrow> db \<Rightarrow> error + (number \<times> db)" where
  "rescheduleTransaction sid bid newBookingDate newDuration d =
     (case getBooking d bid of
        None \<Rightarrow> Inl (FunctionError NOT_FOUND ''Booking not found'' 404)
      | Some booking \<Rightarrow>
          if studentId booking \<noteq> sid then
            Inl (FunctionError UNAUTHORIZED
                   ''Only the student can reschedule this booking'' 403)
          else if status booking \<noteq> PENDENTE \<and> status booking \<noteq> CONFIRMADA then
            Inl (FunctionError VALIDATION_ERROR
                   ''Only pending or confirmed bookings can be rescheduled'' 400)
          else
            let fee = rescheduleFeeOf booking;
                oldKey = (instructorId booking, formatDateKey (date booking));
                newKey = (instructorId booking, formatDateKey newBookingDate)
            in if existingBookings d (instructorId booking) newBookingDate \<noteq> [] then
                 Inl (FunctionError VALIDATION_ERROR ''New time slot is not available'' 409)
               else
                 (case calendar d oldKey of
                    None \<Rightarrow> Inl InternalError
                  | Some oldSlot \<Rightarrow>
                      let cal1 = (calendar d)(oldKey \<mapsto>
                                   oldSlot\<lparr>s_reserved := False, s_bookingId := None\<rparr>);
                          cal2 = cal1(newKey \<mapsto>
                                   \<lparr>s_date = newBookingDate, s_reserved = True,
                                    s_bookingId = Some bid\<rparr>)
                      in Inr (fee,
                           updateBooking bid
                             (\<lambda>b. rescheduleUpdates booking newBookingDate newDuration fee)
                             (d\<lparr>calendar := cal2\<rparr>))))"

definition chargeRescheduleFee :: "nat \<Rightarrow> uid \<Rightarrow> number \<Rightarrow> db \<Rightarrow> db" where
  "chargeRescheduleFee bookingId sid fee d =
     d\<lparr>payments := payments d @
        [\<lparr>p_bookingId = bookingId, p_studentId = sid, p_amount = fee,
          p_type = ''reschedule_fee'', p_status = ''pendente''\<rparr>]\<rparr>"

definition rescheduleBooking ::
  "uid option \<Rightarrow> BookingRescheduleRequest \<Rightarrow> int \<Rightarrow> db \<Rightarrow> (error + number) \<times> db" where
  "rescheduleBooking auth data now d =
     (case auth of
        None \<Rightarrow> (Inl (FunctionError UNAUTHORIZED ''User must be authenticated'' 401), d)
      | Some sid \<Rightarrow>
        (case (rs_bookingId data, rs_newDate data) of
           (Some bid, Some newBookingDate) \<Rightarrow>
             if newBookingDate \<le> now then
               (Inl (FunctionError VALIDATION_ERROR ''New date must be in the future'' 400), d)
             else
               (case rescheduleTransaction sid bid newBookingDate (rs_newDuration data) d of
                  Inl e \<Rightarrow> (Inl e, d)
                | Inr (fee, d1) \<Rightarrow>
                    let d2 = (if js_gt fee (Num 0) then chargeRescheduleFee bid sid fee d1
                              else d1)
                    in (Inr fee,
                        addNotification (instructorId (bookings d2 ! bid))
                          ''booking_rescheduled'' (Some bid) d2))
         | _ \<Rightarrow>
             (Inl (FunctionError VALIDATION_ERROR
                ''Booking ID and new date are required'' 400), d)))"

section \<open>markLessonCompleted\<close>

text \<open>
  The helpers of \<open>markLessonCompleted\<close>. \<open>schedulePaymentRelease\<close> computes the split
  and queues the release. The progress counters of the student, which no guard reads, are
  left out.

  \<open>triggerDetranValidation\<close> reads the student and the instructor documents and queues
  the validation document with \<open>student?.cpf\<close>, \<open>instructor?.cpf\<close> and
  \<open>instructor?.vehicle?.plate\<close>. Firestore refuses a document with an \<open>undefined\<close>
  field: when a document or one of the three fields is missing, \<open>add\<close> throws, the
  helper swallows the exception, and nothing is queued. The other fields of the document
  come from the booking and are always defined. \<open>booking\<close> is the snapshot read before
  the status update, so \<open>booking.actualDuration\<close> is its old value.
\<close>

definition studentCpf :: "db \<Rightarrow> uid \<Rightarrow> string option" where
  "studentCpf d sid = (case students d sid of None \<Rightarrow> None | Some s \<Rightarrow> st_cpf s)"

definition instructorCpf :: "db \<Rightarrow> uid \<Rightarrow> string option" where
  "instructorCpf d iid = (case instructors d iid of None \<Rightarrow> None | Some i \<Rightarrow> i_cpf i)"

definition vehiclePlate :: "db \<Rightarrow> uid \<Rightarrow> string option" where
  "vehiclePlate d iid =
     (case instructors d iid of None \<Rightarrow> None | Some i \<Rightarrow> i_vehicle_plate i)"

definition triggerDetranValidation :: "nat \<Rightarrow> Booking \<Rightarrow> db \<Rightarrow> db" where
  "triggerDetranValidation bookingId booking d =
     (case (studentCpf d (studentId booking), instructorCpf d (instructorId booking),
            vehiclePlate d (instructorId booking)) of
        (Some cpf_aluno, Some cpf_instrutor, Some placa) \<Rightarrow>
          d\<lparr>detranValidationQueue := detranValidationQueue d @
             [\<lparr>dv_bookingId = bookingId, dv_cpf_aluno = cpf_aluno,
               dv_cpf_instrutor = cpf_instrutor,
               dv_duracao_horas = js_or (actualDuration booking) (duration booking),
               dv_veiculo_placa = placa,
               dv_status = ''pending'', dv_attempts = 0\<rparr>]\<rparr>
      | _ \<Rightarrow> d)"

definition chargeRemainingPayment :: "nat \<Rightarrow> Booking \<Rightarrow> db \<Rightarrow> db" where
  "chargeRemainingPayment bookingId booking d =
     d\<lparr>payments := payments d @
        [\<lparr>p_bookingId = bookingId, p_studentId = studentId booking,
          p_amount = remainingAmount booking,
          p_type = ''remaining_payment'', p_status = ''processing''\<rparr>]\<rparr>"

definition schedulePaymentRelease :: "nat \<Rightarrow> uid \<Rightarrow> number \<Rightarrow> int \<Rightarrow> int \<Rightarrow> db \<Rightarrow> db" where
  "schedulePaymentRelease bookingId iid totalAmount delayMs now d =
     (let platformFee = Math_round (js_mul totalAmount (Num 0.15));
          instructorAmount = js_sub totalAmount platformFee
      in d\<lparr>paymentReleaseQueue := paymentReleaseQueue d @
           [\<lparr>pr_bookingId = bookingId, pr_instructorId = iid, pr_totalAmount = totalAmount,
             pr_platformFee = platformFee, pr_instructorAmount = instructorAmount,
             pr_scheduledFor = now + delayMs, pr_processed = False\<rparr>]\<rparr>)"

record LessonCompletionRequest =
  lc_bookingId :: "nat option"
  lc_actualDuration :: number

definition markLessonCompleted ::
  "uid option \<Rightarrow> LessonCompletionRequest \<Rightarrow> int \<Rightarrow> db \<Rightarrow> (error + nat) \<times> db" where
  "markLessonCompleted auth data now d =
     (case auth of
        None \<Rightarrow> (Inl (FunctionError UNAUTHORIZED ''User must be authenticated'' 401), d)
      | Some iid \<Rightarrow>
        (case lc_bookingId data of
           None \<Rightarrow>
             (Inl (FunctionError VALIDATION_ERROR
                ''Booking ID and actual duration are required'' 400), d)
         | Some bid \<Rightarrow>
             if truthy (lc_actualDuration data) then
               (case getBooking d bid of
                  None \<Rightarrow> (Inl (FunctionError NOT_FOUND ''Booking not found'' 404), d)
                | Some booking \<Rightarrow>
                    if instructorId booking \<noteq> iid then
                      (Inl (FunctionError UNAUTHORIZED
                         ''Only the assigned instructor can mark this lesson as completed''
                         403), d)
                    else if status booking = CONCLUIDA then
                      (Inl (FunctionError VALIDATION_ERROR
                         ''Lesson is already marked as completed'' 400), d)
                    else if date booking > now then
                      (Inl (FunctionError VALIDATION_ERROR
                         ''Cannot mark future lesson as completed'' 400), d)
                    else
                      (Inr bid,
                       addNotification (studentId booking) ''rating_request'' (Some bid)
                         (schedulePaymentRelease bid iid (price booking)
                            (24 * 60 * 60 * 1000) now
                           (chargeRemainingPayment bid booking
                             (triggerDetranValidation bid booking
                               (updateBooking bid
                                  (\<lambda>b. b\<lparr>status := CONCLUIDA,
                                         actualDuration := Some (lc_actualDuration data),
                                         completedAt := Some now\<rparr>) d))))))
             else
               (Inl (FunctionError VALIDATION_ERROR
                  ''Booking ID and actual duration are required'' 400), d)))"

section \<open>Scheduled handlers\<close>

text \<open>
  A scheduled handler is a loop of awaited writes inside one \<open>try\<close>. A write may throw
  (\<open>None\<close>), and the run may be cut short: with fuel \<open>Some n\<close> the run stops at its
  \<open>(n+1)\<close>-th write, after \<open>n\<close> writes have been applied, as when the process crashes
  or the awaited call throws there; with fuel \<open>None\<close> it is never cut short. Either way
  the writes already applied stay, and every later step of the run is skipped.
  \<open>runWrites\<close> returns \<open>Inl\<close> when the run stopped and \<open>Inr\<close> with the fuel left
  when the writes of one record are through.
\<close>

fun runWrites :: "nat option \<Rightarrow> (db \<Rightarrow> db option) list \<Rightarrow> db \<Rightarrow> db + nat option \<times> db" where
  "runWrites fuel [] d = Inr (fuel, d)"
| "runWrites None (w # ws) d =
     (case w d of None \<Rightarrow> Inl d | Some d' \<Rightarrow> runWrites None ws d')"
| "runWrites (Some 0) (w # ws) d = Inl d"
| "runWrites (Some (Suc n)) (w # ws) d =
     (case w d of None \<Rightarrow> Inl d | Some d' \<Rightarrow> runWrites (Some n) ws d')"

subsection \<open>processBookingTimeouts\<close>

definition processRefund_timeout :: "nat \<Rightarrow> number \<Rightarrow> string \<Rightarrow> db \<Rightarrow> db" where
  "processRefund_timeout bookingId amount why d =
     d\<lparr>refunds := refunds d @
        [\<lparr>rf_bookingId = bookingId, rf_studentId = None, rf_amount = amount,
          rf_reason = why\<rparr>]\<rparr>"

definition markTimeoutProcessed :: "nat \<Rightarrow> db \<Rightarrow> db" where
  "markTimeoutProcessed t d =
     d\<lparr>bookingTimeouts :=
        (bookingTimeouts d)[t := (bookingTimeouts d ! t)\<lparr>t_processed := True\<rparr>]\<rparr>"

text \<open>
  The writes the loop body makes for the timeout job at position \<open>t\<close>, decided by the
  booking as read at the start of the body.
\<close>

definition timeoutWrites :: "int \<Rightarrow> nat \<Rightarrow> db \<Rightarrow> (db \<Rightarrow> db option) list" where
  "timeoutWrites now t d =
     (let bookingId = t_bookingId (bookingTimeouts d ! t) in
      case getBooking d bookingId of
        None \<Rightarrow> [\<lambda>d. Some (markTimeoutProcessed t d)]
      | Some booking \<Rightarrow>
          (if status booking = PENDENTE then
             [\<lambda>d. Some (updateBooking bookingId
                     (\<lambda>b. b\<lparr>status := CANCELADA,
                            cancellationReason := Some ''Instrutor nao aceitou em 2 horas'',
                            cancelledAt := Some now\<rparr>) d),
              \<lambda>d. Some (d\<lparr>calendar := (calendar d)
                     ((instructorId booking, formatDateKey (date booking)) := None)\<rparr>),
              \<lambda>d. Some (processRefund_timeout bookingId (depositAmount booking) ''timeout'' d),
              \<lambda>d. Some (addNotification (studentId booking) ''booking_timeout''
                     (Some bookingId) d)]
           else [])
          @ [\<lambda>d. Some (markTimeoutProcessed t d)])"

definition expiredTimeouts :: "int \<Rightarrow> db \<Rightarrow> nat list" where
  "expiredTimeouts now d =
     take 50 (filter (\<lambda>t. t_scheduledFor (bookingTimeouts d ! t) \<le> now
                         \<and> t_processed (bookingTimeouts d ! t) = False)
                [0..<length (bookingTimeouts d)])"

fun timeoutLoop :: "int \<Rightarrow> nat option \<Rightarrow> nat list \<Rightarrow> db \<Rightarrow> db" where
  "timeoutLoop now fuel [] d = d"
| "timeoutLoop now fuel (t # ts) d =
     (case runWrites fuel (timeoutWrites now t d) d of
        Inl d' \<Rightarrow> d'
      | Inr (fuel', d') \<Rightarrow> timeoutLoop now fuel' ts d')"

definition processBookingTimeouts :: "int \<Rightarrow> nat option \<Rightarrow> db \<Rightarrow> db" where
  "processBookingTimeouts now fuel d = timeoutLoop now fuel (expiredTimeouts now d) d"

subsection \<open>processPaymentReleases\<close>

text \<open>
  The wallet update of a release, \<open>FieldValue.increment(release.instructorAmount)\<close> on
  two fields. It throws when the instructor document does not exist, and the SDK refuses
  \<open>increment(NaN)\<close>.
\<close>

definition creditWallet :: "uid \<Rightarrow> number \<Rightarrow> db \<Rightarrow> db option" where
  "creditWallet iid amount d =
     (if amount = NaN then None
      else case instructors d iid of
        None \<Rightarrow> None
      | Some i \<Rightarrow>
          Some (d\<lparr>instructors := (instructors d)(iid \<mapsto>
                  i\<lparr>wallet_available := js_add (wallet_available i) amount,
                    wallet_total := js_add (wallet_total i) amount\<rparr>)\<rparr>))"

definition markReleaseProcessed :: "nat \<Rightarrow> db \<Rightarrow> db" where
  "markReleaseProcessed q d =
     d\<lparr>paymentReleaseQueue :=
        (paymentReleaseQueue d)[q := (paymentReleaseQueue d ! q)\<lparr>pr_processed := True\<rparr>]\<rparr>"

text \<open>
  The writes the loop body makes for the queue record at position \<open>q\<close>, whose data
  \<open>release\<close> is the snapshot's: wallet, transaction log, notification, and last the
  \<open>processed\<close> flag.
\<close>

definition releaseWrites :: "nat \<Rightarrow> PaymentRelease \<Rightarrow> (db \<Rightarrow> db option) list" where
  "releaseWrites q release =
     [creditWallet (pr_instructorId release) (pr_instructorAmount release),
      \<lambda>d. Some (d\<lparr>walletTransactions := walletTransactions d @
              [\<lparr>w_userId = pr_instructorId release, w_type = ''credit'',
                w_amount = pr_instructorAmount release,
                w_bookingId = pr_bookingId release\<rparr>]\<rparr>),
      \<lambda>d. Some (addNotification (pr_instructorId release) ''payment_released''
              (Some (pr_bookingId release)) d),
      \<lambda>d. Some (markReleaseProcessed q d)]"

definition releasesSnapshot :: "int \<Rightarrow> db \<Rightarrow> (nat \<times> PaymentRelease) list" where
  "releasesSnapshot now d =
     take 50 (filter (\<lambda>(q, r). pr_scheduledFor r \<le> now \<and> pr_processed r = False)
                (zip [0..<length (paymentReleaseQueue d)] (paymentReleaseQueue d)))"

fun releaseLoop :: "nat option \<Rightarrow> (nat \<times> PaymentRelease) list \<Rightarrow> db \<Rightarrow> db" where
  "releaseLoop fuel [] d = d"
| "releaseLoop fuel ((q, release) # rs) d =
     (case runWrites fuel (releaseWrites q release) d of
        Inl d' \<Rightarrow> d'
      | Inr (fuel', d') \<Rightarrow> releaseLoop fuel' rs d')"

definition processPaymentReleases :: "int \<Rightarrow> nat option \<Rightarrow> db \<Rightarrow> db" where
  "processPaymentReleases now fuel d = releaseLoop fuel (releasesSnapshot now d) d"

section \<open>Operations in sequence\<close>

text \<open>
  A history of the scheduling subsystem is a list of calls, each with its caller, its
  request and the clock reading it sees; \<open>run\<close> applies them in order. A rejected call
  leaves the state it returns, which for every rejection before the first write is the
  state it was given. The payment webhook, the only other function that writes a booking
  document, writes its payment status alone and is left out.
\<close>

datatype operation =
    CreateBooking "uid option" BookingCreateRequest int
  | ConfirmBooking "uid option" "nat option" int
  | CancelBooking "uid option" BookingCancelRequest int
  | RescheduleBooking "uid option" BookingRescheduleRequest int
  | MarkLessonCompleted "uid option" LessonCompletionRequest int
  | ProcessBookingTimeouts int "nat option"
  | ProcessPaymentReleases int "nat option"

fun perform :: "operation \<Rightarrow> db \<Rightarrow> db" where
  "perform (CreateBooking auth data now) d = snd (createBooking auth data now d)"
| "perform (ConfirmBooking auth bookingId now) d = snd (confirmBooking auth bookingId now d)"
| "perform (CancelBooking auth data now) d = snd (cancelBooking auth data now d)"
| "perform (RescheduleBooking auth data now) d = snd (rescheduleBooking auth data now d)"
| "perform (MarkLessonCompleted auth data now) d = snd (markLessonCompleted auth data now d)"
| "perform (ProcessBookingTimeouts now fuel) d = processBookingTimeouts now fuel d"
| "perform (ProcessPaymentReleases now fuel) d = processPaymentReleases now fuel d"

fun run :: "operation list \<Rightarrow> db \<Rightarrow> db" where
  "run [] d = d"
| "run (x # xs) d = run xs (perform x d)"

definition notPending :: "nat \<Rightarrow> db \<Rightarrow> bool" where
  "notPending bid d = (bid < length (bookings d) \<and> status (bookings d ! bid) \<noteq> PENDENTE)"

text \<open>The booking document and the refunds of one booking are as given.\<close>

definition frozen :: "nat \<Rightarrow> Booking \<Rightarrow> Refund list \<Rightarrow> db \<Rightarrow> bool" where
  "frozen bid b rs d =
     (bid < length (bookings d) \<and> bookings d ! bid = b
      \<and> filter (\<lambda>r. rf_bookingId r = bid) (refunds d) = rs)"

text \<open>
  Deposit and remaining amount of a booking add up to its price, compared as the code
  would compare them; and the calls that change the duration of a booking.
\<close>

definition amountsAddUp :: "Booking \<Rightarrow> bool" where
  "amountsAddUp b = js_eq (js_add (depositAmount b) (remainingAmount b)) (price b)"

fun changesDuration :: "operation \<Rightarrow> bool" where
  "changesDuration (RescheduleBooking auth data now) = given (rs_newDuration data)"
| "changesDuration _ = False"

text \<open>
  The slot ledger agrees with the bookings: every active booking owns the calendar
  document of its slot, reserved and naming it. And the calls that are reschedules.
\<close>

definition ownsSlot :: "db \<Rightarrow> nat \<Rightarrow> bool" where
  "ownsSlot d i =
     (case calendar d (instructorId (bookings d ! i), formatDateKey (date (bookings d ! i))) of
        None \<Rightarrow> False
      | Some s \<Rightarrow> s_reserved s \<and> s_bookingId s = Some i)"

definition slotLedgerOk :: "db \<Rightarrow> bool" where
  "slotLedgerOk d =
     list_all (\<lambda>i. if isActive (bookings d ! i) then ownsSlot d i else True)
       [0..<length (bookings d)]"

fun isReschedule :: "operation \<Rightarrow> bool" where
  "isReschedule (RescheduleBooking auth data now) = True"
| "isReschedule _ = False"

text \<open>No active booking lies in the slot of the given key.\<close>

definition slotVacant :: "db \<Rightarrow> uid \<times> int \<Rightarrow> bool" where
  "slotVacant d k =
     list_all (\<lambda>b. if isActive b then (instructorId b, formatDateKey (date b)) \<noteq> k else True)
       (bookings d)"

text \<open>The active bookings of an instructor whose dates fall into one calendar slot.\<close>

definition activeInSlot :: "db \<Rightarrow> uid \<Rightarrow> int \<Rightarrow> Booking list" where
  "activeInSlot d i k =
     filter (\<lambda>b. instructorId b = i \<and> formatDateKey (date b) = k \<and> isActive b) (bookings d)"

section \<open>The specification's side\<close>

text \<open>
  The guard of \<open>confirm\<close> in the specification's words: the booking is Requested, at most
  two hours have passed since its creation, and the caller is its provider.
\<close>

definition spec_confirmAllowed :: "uid option \<Rightarrow> nat option \<Rightarrow> int \<Rightarrow> db \<Rightarrow> bool" where
  "spec_confirmAllowed auth bookingId now d =
     (case (auth, bookingId) of
        (Some caller, Some bid) \<Rightarrow>
          (case getBooking d bid of
             None \<Rightarrow> False
           | Some b \<Rightarrow> status b = PENDENTE \<and> now - createdAt b \<le> 2 * 60 * 60 * 1000
                       \<and> caller = instructorId b)
      | _ \<Rightarrow> False)"



subsection \<open>The validation task\<close>

datatype ValidationState = Pending | Validated | RequiresManualReview

datatype CertifyOutcome = Success | Timeout | TransientError | PermanentError

record ValidationTask =
  vt_bookingId :: nat
  vt_attempt :: nat
  vt_state :: ValidationState

text \<open>
  Modelled from the spec: the processor of the validation queue is not among the sources;
  only \<open>triggerDetranValidation\<close>, which enqueues the task, is. One step of the
  per-task state machine of the specification's section 4.5: success validates; a timeout
  and a permanent error go to manual review at once; a transient error increments the
  attempt counter and leaves the task pending while fewer than three attempts have been
  made, and goes to manual review otherwise. A terminal task does not move.
\<close>

definition spec_validationStep :: "CertifyOutcome \<Rightarrow> ValidationTask \<Rightarrow> ValidationTask" where
  "spec_validationStep outcome task =
     (if vt_state task = Pending then
        (case outcome of
           Success \<Rightarrow> task\<lparr>vt_state := Validated\<rparr>
         | Timeout \<Rightarrow> task\<lparr>vt_state := RequiresManualReview\<rparr>
         | PermanentError \<Rightarrow> task\<lparr>vt_state := RequiresManualReview\<rparr>
         | TransientError \<Rightarrow>
             (if vt_attempt task + 1 < 3
              then task\<lparr>vt_attempt := vt_attempt task + 1\<rparr>
              else task\<lparr>vt_attempt := vt_attempt task + 1,
                        vt_state := RequiresManualReview\<rparr>))
      else task)"

text \<open>
  Modelled from the spec: the certification call is made once per outcome while the task
  is pending; the result is the final task and the number of calls made.
\<close>

fun spec_validationRun :: "CertifyOutcome list \<Rightarrow> ValidationTask \<Rightarrow> ValidationTask \<times> nat" where
  "spec_validationRun [] task = (task, 0)"
| "spec_validationRun (outcome # outcomes) task =
     (if vt_state task = Pending
      then (case spec_validationRun outcomes (spec_validationStep outcome task) of
              (task', calls) \<Rightarrow> (task', calls + 1))
      else (task, 0))"

text \<open>
  Modelled from the spec: exponential backoff; the delay before the retry that follows
  the given attempt grows by a constant factor with every attempt. The specification
  fixes neither the first delay nor the factor.
\<close>

definition spec_backoffDelay :: "nat \<Rightarrow> nat \<Rightarrow> nat \<Rightarrow> nat" where
  "spec_backoffDelay firstDelay factor attempt = firstDelay * factor ^ attempt"

text \<open>The task a queue document stands for, as the specification reads it.\<close>

definition spec_taskOf :: "DetranValidation \<Rightarrow> ValidationTask" where
  "spec_taskOf q =
     \<lparr>vt_bookingId = dv_bookingId q, vt_attempt = dv_attempts q,
      vt_state = (if dv_status q = ''pending'' then Pending else RequiresManualReview)\<rparr>"

section \<open>A concrete platform\<close>

text \<open>
  Two approved instructors, one charging 70 and one charging 85 an hour, the second with
  no vehicle plate on file, one registered student, and empty collections. Times are
  milliseconds; hour \<open>n\<close> starts at \<open>n * 3600000\<close>.
\<close>

definition db0 :: db where
  "db0 = \<lparr>bookings = [], calendar = Map.empty,
          instructors =
            [''i1'' \<mapsto> \<lparr>i_status = ''aprovado'', i_pricePerHour = Some (Num 70),
                         i_cpf = Some ''11111111111'', i_vehicle_plate = Some ''ABC1D23'',
                         wallet_available = Num 0, wallet_total = Num 0,
                         wallet_penalties = Num 0\<rparr>,
             ''i2'' \<mapsto> \<lparr>i_status = ''aprovado'', i_pricePerHour = Some (Num 85),
                         i_cpf = Some ''22222222222'', i_vehicle_plate = None,
                         wallet_available = Num 0, wallet_total = Num 0,
                         wallet_penalties = Num 0\<rparr>],
          students = [''s1'' \<mapsto> \<lparr>st_cpf = Some ''33333333333''\<rparr>],
          bookingTimeouts = [], paymentReleaseQueue = [], refunds = [], payments = [],
          paymentIntents = [], notifications = [], walletTransactions = [],
          detranValidationQueue = []\<rparr>"

text \<open>Two hours with instructor \<open>i1\<close> at 10:00, at 11:00 and at hour 30.\<close>

definition reqA :: BookingCreateRequest where
  "reqA = \<lparr>c_instructorId = ''i1'', c_date = Some 36000000, c_duration = Num 2\<rparr>"

definition reqB :: BookingCreateRequest where
  "reqB = \<lparr>c_instructorId = ''i1'', c_date = Some 39600000, c_duration = Num 2\<rparr>"

definition reqLate :: BookingCreateRequest where
  "reqLate = \<lparr>c_instructorId = ''i1'', c_date = Some 108000000, c_duration = Num 2\<rparr>"

text \<open>One hour with instructor \<open>i2\<close> at 10:00.\<close>

definition req85 :: BookingCreateRequest where
  "req85 = \<lparr>c_instructorId = ''i2'', c_date = Some 36000000, c_duration = Num 1\<rparr>"

text \<open>Booking 1 moved to 10:10, into the calendar hour of booking 0.\<close>

definition reqR :: BookingRescheduleRequest where
  "reqR = \<lparr>rs_bookingId = Some 1, rs_newDate = Some 36600000, rs_newDuration = None\<rparr>"

text \<open>Booking 0 moved to 11:00, first with a new duration of three hours, then to 12:00.\<close>

definition reqDur :: BookingRescheduleRequest where
  "reqDur = \<lparr>rs_bookingId = Some 0, rs_newDate = Some 39600000,
             rs_newDuration = Some (Num 3)\<rparr>"

definition reqMove :: BookingRescheduleRequest where
  "reqMove = \<lparr>rs_bookingId = Some 0, rs_newDate = Some 39600000, rs_newDuration = None\<rparr>"

definition reqMove2 :: BookingRescheduleRequest where
  "reqMove2 = \<lparr>rs_bookingId = Some 0, rs_newDate = Some 43200000, rs_newDuration = None\<rparr>"

definition cancelByStudent :: BookingCancelRequest where
  "cancelByStudent = \<lparr>x_bookingId = Some 0, x_userType = Student, x_reason = None\<rparr>"

definition completion :: LessonCompletionRequest where
  "completion = \<lparr>lc_bookingId = Some 0, lc_actualDuration = Num 2\<rparr>"

text \<open>
  Booking 0 of \<open>reqA\<close> created at time 0; the same booking confirmed by its instructor a
  second later; and then marked completed at its start time.
\<close>

definition dbA :: db where
  "dbA = run [CreateBooking (Some ''s1'') reqA 0] db0"

definition dbConfirmed :: db where
  "dbConfirmed = run [ConfirmBooking (Some ''i1'') (Some 0) 1000] dbA"

definition dbCompleted :: db where
  "dbCompleted = run [MarkLessonCompleted (Some ''i1'') completion 36000000] dbConfirmed"

text \<open>Booking 0 of \<open>reqA\<close> after its first reschedule, to 11:00.\<close>

definition dbMoved :: db where
  "dbMoved = run [RescheduleBooking (Some ''s1'') reqMove 1000] dbA"

text \<open>Booking 0 of \<open>reqLate\<close>, thirty hours ahead, created at time 0.\<close>

definition dbLate :: db where
  "dbLate = run [CreateBooking (Some ''s1'') reqLate 0] db0"

section \<open>Lemmas about the operations\<close>

text \<open>Whatever holds before a write list runs and is kept by each write holds after it.\<close>

lemma runWrites_inv:
  assumes "\<And>w d d'. w \<in> set ws \<Longrightarrow> I d \<Longrightarrow> w d = Some d' \<Longrightarrow> I d'" and "I d"
  shows "case runWrites fuel ws d of Inl d' \<Rightarrow> I d' | Inr (f, d') \<Rightarrow> I d'"
  using assms
proof (induction ws arbitrary: fuel d)
  case Nil
  then show ?case by simp
next
  case (Cons w ws)
  have step: "\<And>f d'. w d = Some d' \<Longrightarrow>
      (case runWrites f ws d' of Inl x \<Rightarrow> I x | Inr (g, x) \<Rightarrow> I x)"
  proof -
    fix f d' assume wd: "w d = Some d'"
    have I': "I d'" using Cons.prems(1)[of w d d'] Cons.prems(2) wd by simp
    show "case runWrites f ws d' of Inl x \<Rightarrow> I x | Inr (g, x) \<Rightarrow> I x"
    proof (rule Cons.IH[OF _ I'])
      fix v e e' assume "v \<in> set ws" "I e" "v e = Some e'"
      then show "I e'" using Cons.prems(1)[of v e e'] by simp
    qed
  qed
  show ?case
  proof (cases fuel)
    case None
    then show ?thesis using step Cons.prems(2) by (cases "w d") simp_all
  next
    case (Some n)
    then show ?thesis using step Cons.prems(2) by (cases n; cases "w d") simp_all
  qed
qed

text \<open>\<open>triggerDetranValidation\<close> touches the validation queue alone.\<close>

lemma triggerDetranValidation_frame:
  "bookings (triggerDetranValidation bid b d) = bookings d"
  "calendar (triggerDetranValidation bid b d) = calendar d"
  "instructors (triggerDetranValidation bid b d) = instructors d"
  "students (triggerDetranValidation bid b d) = students d"
  "bookingTimeouts (triggerDetranValidation bid b d) = bookingTimeouts d"
  "paymentReleaseQueue (triggerDetranValidation bid b d) = paymentReleaseQueue d"
  "refunds (triggerDetranValidation bid b d) = refunds d"
  "payments (triggerDetranValidation bid b d) = payments d"
  "paymentIntents (triggerDetranValidation bid b d) = paymentIntents d"
  "notifications (triggerDetranValidation bid b d) = notifications d"
  "walletTransactions (triggerDetranValidation bid b d) = walletTransactions d"
  by (simp_all add: triggerDetranValidation_def split: option.splits)

text \<open>What a successful call was given, and the state it leaves.\<close>

lemma markLessonCompleted_Inr:
  assumes "markLessonCompleted auth data now d = (Inr bid, d')"
  shows "\<exists>iid booking. auth = Some iid \<and> lc_bookingId data = Some bid
     \<and> truthy (lc_actualDuration data)
     \<and> getBooking d bid = Some booking \<and> instructorId booking = iid
     \<and> status booking \<noteq> CONCLUIDA \<and> date booking \<le> now
     \<and> d' = addNotification (studentId booking) ''rating_request'' (Some bid)
              (schedulePaymentRelease bid iid (price booking) (24 * 60 * 60 * 1000) now
                (chargeRemainingPayment bid booking
                  (triggerDetranValidation bid booking
                    (updateBooking bid
                       (\<lambda>b. b\<lparr>status := CONCLUIDA,
                              actualDuration := Some (lc_actualDuration data),
                              completedAt := Some now\<rparr>) d))))"
  using assms
  by (auto simp: markLessonCompleted_def split: option.splits if_splits)

lemma markLessonCompleted_succeeds_iff:
  "(\<exists>r. fst (markLessonCompleted auth data now d) = Inr r)
     = (case (auth, lc_bookingId data) of
          (Some caller, Some bid) \<Rightarrow>
            (case getBooking d bid of
               None \<Rightarrow> False
             | Some b \<Rightarrow> truthy (lc_actualDuration data) \<and> instructorId b = caller
                         \<and> status b \<noteq> CONCLUIDA \<and> date b \<le> now)
        | _ \<Rightarrow> False)"
  by (auto simp: markLessonCompleted_def split: option.splits)

lemma hours_greater_2:
  "((of_int x :: rat) / (1000 * 60 * 60) > 2) = (x > 2 * 60 * 60 * 1000)"
proof -
  have "((of_int x :: rat) / (1000 * 60 * 60) > 2)
      = ((of_int x :: rat) > 2 * (1000 * 60 * 60))"
    by (simp add: field_simps)
  also have "\<dots> = ((of_int x :: rat) > of_int (2 * 60 * 60 * 1000))" by simp
  also have "\<dots> = (x > 2 * 60 * 60 * 1000)" by (simp only: of_int_less_iff)
  finally show ?thesis .
qed

lemma confirm_succeeds_iff:
  "(\<exists>r. fst (confirmBooking auth bookingId now d) = Inr r)
     = spec_confirmAllowed auth bookingId now d"
  by (auto simp: confirmBooking_def spec_confirmAllowed_def hours_greater_2
      split: option.splits)

lemma confirm_success_state:
  assumes "spec_confirmAllowed auth bookingId now d"
  shows "\<exists>iid bid b. auth = Some iid \<and> bookingId = Some bid \<and> getBooking d bid = Some b
     \<and> confirmBooking auth bookingId now d =
         (Inr bid,
          addNotification (studentId b) ''booking_confirmed'' (Some bid)
            (cancelTimeoutJob bid
              (updatePaymentIntent bid (remainingAmount b)
                (updateBooking bid
                   (\<lambda>b. b\<lparr>status := CONFIRMADA, confirmedAt := Some now\<rparr>) d))))"
  using assms
  by (auto simp: confirmBooking_def spec_confirmAllowed_def hours_greater_2
      split: option.splits)

lemma confirm_rejected_unchanged:
  "\<not> spec_confirmAllowed auth bookingId now d
     \<Longrightarrow> snd (confirmBooking auth bookingId now d) = d"
  by (auto simp: confirmBooking_def spec_confirmAllowed_def hours_greater_2
      split: option.splits)

lemma rescheduleTransaction_Inr:
  assumes "rescheduleTransaction sid bid nd ndur d = Inr (fee, d1)"
  shows "bid < length (bookings d) \<and> studentId (bookings d ! bid) = sid
     \<and> isActive (bookings d ! bid)
     \<and> fee = rescheduleFeeOf (bookings d ! bid)
     \<and> bookings d1 = (bookings d)[bid := rescheduleUpdates (bookings d ! bid) nd ndur fee]
     \<and> payments d1 = payments d"
  using assms
  by (auto simp: rescheduleTransaction_def getBooking_def Let_def updateBooking_def
      isActive_def split: option.splits if_splits)

lemma rescheduleUpdates_count:
  "rescheduleCount (rescheduleUpdates b nd ndur fee) = rescheduleCount b + 1"
  by (simp add: rescheduleUpdates_def Let_def)

text \<open>Predicates on every element of a list survive an update by a good element.\<close>

lemma list_all_update:
  assumes "list_all P xs" and "\<And>x. P x \<Longrightarrow> P (f x)"
  shows "list_all P (xs[i := f (xs ! i)])"
proof (cases "i < length xs")
  case True
  with assms show ?thesis
    by (auto simp: list_all_length nth_list_update)
next
  case False
  then have "xs[i := f (xs ! i)] = xs" by (intro list_update_beyond) simp
  with assms(1) show ?thesis by simp
qed

lemma list_all_set:
  assumes "list_all P xs" and "P y"
  shows "list_all P (xs[i := y])"
  using assms set_update_subset_insert[of xs i y] by (auto simp: list_all_iff)

section \<open>Slot exclusivity\<close>

text \<open>
  \<open>createBooking\<close> is guarded by the calendar slot: a request for a reserved slot is
  rejected with nothing written, and a successful request reserves its slot in the same
  transaction that stores the booking.
\<close>

lemma createBooking_slot_taken:
  assumes "c_date data = Some t"
      and "slotReserved d (c_instructorId data) (formatDateKey t)"
  shows "\<exists>e. createBooking auth data now d = (Inl e, d)"
  using assms
  by (auto simp: createBooking_def createTransaction_def Let_def split: option.splits)

lemma createBooking_reserves:
  assumes "createBooking auth data now d = (Inr bid, d')"
  shows "\<exists>t. c_date data = Some t \<and> bid = length (bookings d)
           \<and> slotReserved d' (c_instructorId data) (formatDateKey t)
           \<and> calendar d' (c_instructorId data, formatDateKey t)
               = Some \<lparr>s_date = t, s_reserved = True, s_bookingId = Some bid\<rparr>
           \<and> length (bookings d') = Suc (length (bookings d))
           \<and> status (bookings d' ! bid) = PENDENTE \<and> date (bookings d' ! bid) = t
           \<and> instructorId (bookings d' ! bid) = c_instructorId data"
  using assms
  by (auto simp: createBooking_def createTransaction_def Let_def slotReserved_def
      addNotification_def scheduleAcceptanceTimeout_def processDepositPayment_def
      newBooking_def split: option.splits if_splits)

lemma createBooking_second_conflicts:
  assumes "createBooking auth data now d = (Inr bid, d')"
      and "c_date data = Some t" and "c_date data2 = Some t2"
      and "c_instructorId data2 = c_instructorId data"
      and "formatDateKey t2 = formatDateKey t"
  shows "\<exists>e. createBooking auth2 data2 now2 d' = (Inl e, d')"
proof -
  from createBooking_reserves[OF assms(1)] assms(2)
  have "slotReserved d' (c_instructorId data) (formatDateKey t)" by auto
  with assms(4,5) have "slotReserved d' (c_instructorId data2) (formatDateKey t2)" by simp
  with assms(3) show ?thesis by (rule createBooking_slot_taken)
qed

text \<open>
  The agreement of ledger and bookings is kept by creation, confirmation, cancellation
  (also when its slot write throws), completion and both handlers, however they are cut
  short; with it, no two active bookings share a slot.
\<close>

lemma slotLedgerOk_iff:
  "slotLedgerOk d = (\<forall>i < length (bookings d). isActive (bookings d ! i) \<longrightarrow> ownsSlot d i)"
  by (auto simp: slotLedgerOk_def list_all_iff)

lemma slotLedgerOk_unique:
  assumes "slotLedgerOk d"
      and "a < length (bookings d)" "b < length (bookings d)"
      and "isActive (bookings d ! a)" "isActive (bookings d ! b)"
      and "instructorId (bookings d ! a) = instructorId (bookings d ! b)"
      and "formatDateKey (date (bookings d ! a)) = formatDateKey (date (bookings d ! b))"
  shows "a = b"
proof -
  from assms have "ownsSlot d a" "ownsSlot d b" by (auto simp: slotLedgerOk_iff)
  with assms(6,7) show ?thesis by (auto simp: ownsSlot_def split: option.splits)
qed

lemma slotLedgerOk_db0: "slotLedgerOk db0"
  by (simp add: slotLedgerOk_def db0_def)

lemma ledger_create:
  assumes "slotLedgerOk d"
  shows "slotLedgerOk (snd (createBooking auth data now d))"
proof (cases "createBooking auth data now d")
  case (Pair r d')
  show ?thesis
  proof (cases r)
    case (Inl e)
    with Pair have "d' = d"
      by (auto simp: createBooking_def Let_def split: option.splits if_splits sum.splits)
    with Pair assms show ?thesis by simp
  next
    case (Inr bid)
    with Pair obtain sid t tot dep rmn where
      free: "\<not> slotReserved d (c_instructorId data) (formatDateKey t)" and
      bk: "bookings d' = bookings d @
             [newBooking sid (c_instructorId data) t (c_duration data) tot dep rmn now]" and
      cal: "calendar d' = (calendar d)((c_instructorId data, formatDateKey t) \<mapsto>
              \<lparr>s_date = t, s_reserved = True, s_bookingId = Some (length (bookings d))\<rparr>)"
      by (auto simp: createBooking_def createTransaction_def Let_def addNotification_def
          scheduleAcceptanceTimeout_def processDepositPayment_def
          split: option.splits if_splits)
    have "\<forall>i < length (bookings d'). isActive (bookings d' ! i) \<longrightarrow> ownsSlot d' i"
    proof (intro allI impI)
      fix i assume i: "i < length (bookings d')" and act: "isActive (bookings d' ! i)"
      show "ownsSlot d' i"
      proof (cases "i < length (bookings d)")
        case True
        then have same: "bookings d' ! i = bookings d ! i" by (simp add: bk nth_append)
        with act True assms have own: "ownsSlot d i" by (simp add: slotLedgerOk_iff)
        then have "(instructorId (bookings d ! i), formatDateKey (date (bookings d ! i)))
                    \<noteq> (c_instructorId data, formatDateKey t)"
          using free by (auto simp: ownsSlot_def slotReserved_def split: option.splits)
        with own show ?thesis by (auto simp: ownsSlot_def same cal)
      next
        case False
        with i have "i = length (bookings d)" by (simp add: bk)
        then show ?thesis by (simp add: ownsSlot_def bk cal newBooking_def)
      qed
    qed
    with Pair show ?thesis by (simp add: slotLedgerOk_iff)
  qed
qed

lemma ledger_same:
  assumes "slotLedgerOk d" and "bookings d' = bookings d" and "calendar d' = calendar d"
  shows "slotLedgerOk d'"
  using assms by (simp add: slotLedgerOk_iff ownsSlot_def)

lemma ledger_updateBooking:
  assumes "slotLedgerOk d"
      and "\<And>b. instructorId (f b) = instructorId b \<and> date (f b) = date b"
      and "isActive (f (bookings d ! k)) \<Longrightarrow> isActive (bookings d ! k)"
  shows "slotLedgerOk (updateBooking k f d)"
proof -
  have "\<forall>i < length (bookings d).
          isActive ((bookings d)[k := f (bookings d ! k)] ! i) \<longrightarrow>
          ownsSlot (d\<lparr>bookings := (bookings d)[k := f (bookings d ! k)]\<rparr>) i"
  proof (intro allI impI)
    fix i assume i: "i < length (bookings d)"
      and act: "isActive ((bookings d)[k := f (bookings d ! k)] ! i)"
    show "ownsSlot (d\<lparr>bookings := (bookings d)[k := f (bookings d ! k)]\<rparr>) i"
    proof (cases "i = k")
      case True
      with act i have "isActive (bookings d ! k)" using assms(3) by simp
      with assms(1) i True have "ownsSlot d k" by (simp add: slotLedgerOk_iff)
      with i True show ?thesis by (simp add: ownsSlot_def assms(2))
    next
      case False
      with act i assms(1) have "ownsSlot d i" by (simp add: slotLedgerOk_iff)
      with False show ?thesis by (simp add: ownsSlot_def)
    qed
  qed
  then show ?thesis by (simp add: slotLedgerOk_iff updateBooking_def)
qed

lemma slotVacant_iff:
  "slotVacant d k = (\<forall>i < length (bookings d). isActive (bookings d ! i) \<longrightarrow>
       (instructorId (bookings d ! i), formatDateKey (date (bookings d ! i))) \<noteq> k)"
  by (auto simp: slotVacant_def list_all_length)

lemma ledger_write_vacant_slot:
  assumes "slotLedgerOk d" and "slotVacant d k"
  shows "slotLedgerOk (d\<lparr>calendar := (calendar d)(k := v)\<rparr>)"
  using assms by (auto simp: slotLedgerOk_iff slotVacant_iff ownsSlot_def)

lemma vacant_after_deactivation:
  assumes "slotLedgerOk d" and "k < length (bookings d)" and "isActive (bookings d ! k)"
      and "\<And>b. instructorId (f b) = instructorId b \<and> date (f b) = date b"
      and "\<not> isActive (f (bookings d ! k))"
  shows "slotVacant (updateBooking k f d)
           (instructorId (bookings d ! k), formatDateKey (date (bookings d ! k)))"
proof -
  have "\<forall>i < length (bookings d).
          isActive ((bookings d)[k := f (bookings d ! k)] ! i) \<longrightarrow>
          (instructorId ((bookings d)[k := f (bookings d ! k)] ! i),
           formatDateKey (date ((bookings d)[k := f (bookings d ! k)] ! i)))
          \<noteq> (instructorId (bookings d ! k), formatDateKey (date (bookings d ! k)))"
  proof (intro allI impI)
    fix i assume i: "i < length (bookings d)"
      and act: "isActive ((bookings d)[k := f (bookings d ! k)] ! i)"
    from act i assms(2,5) have ne: "i \<noteq> k" by auto
    with act have acti: "isActive (bookings d ! i)" by simp
    from slotLedgerOk_unique[OF assms(1) i assms(2) acti assms(3)] ne
    have "(instructorId (bookings d ! i), formatDateKey (date (bookings d ! i)))
          \<noteq> (instructorId (bookings d ! k), formatDateKey (date (bookings d ! k)))"
      by auto
    with ne show "(instructorId ((bookings d)[k := f (bookings d ! k)] ! i),
           formatDateKey (date ((bookings d)[k := f (bookings d ! k)] ! i)))
          \<noteq> (instructorId (bookings d ! k), formatDateKey (date (bookings d ! k)))"
      by simp
  qed
  then show ?thesis by (simp add: slotVacant_iff updateBooking_def)
qed

lemma ledger_confirm:
  assumes "slotLedgerOk d"
  shows "slotLedgerOk (snd (confirmBooking auth b now d))"
proof (cases "spec_confirmAllowed auth b now d")
  case False
  then show ?thesis using assms by (simp add: confirm_rejected_unchanged)
next
  case True
  from confirm_success_state[OF True] obtain bid bk where
    bb: "b = Some bid" and
    g: "getBooking d bid = Some bk" and
    eq: "confirmBooking auth b now d =
         (Inr bid,
          addNotification (studentId bk) ''booking_confirmed'' (Some bid)
            (cancelTimeoutJob bid
              (updatePaymentIntent bid (remainingAmount bk)
                (updateBooking bid
                   (\<lambda>b. b\<lparr>status := CONFIRMADA, confirmedAt := Some now\<rparr>) d))))"
    by blast
  from True g bb have "status bk = PENDENTE"
    by (auto simp: spec_confirmAllowed_def split: option.splits)
  with g have act: "isActive (bookings d ! bid)"
    by (auto simp: getBooking_def isActive_def split: if_splits)
  have "slotLedgerOk (updateBooking bid
                   (\<lambda>b. b\<lparr>status := CONFIRMADA, confirmedAt := Some now\<rparr>) d)"
    by (rule ledger_updateBooking[OF assms]) (simp_all add: act)
  then show ?thesis
    unfolding eq
    by (rule ledger_same)
       (simp_all add: addNotification_def cancelTimeoutJob_def updatePaymentIntent_def)
qed

lemma ledger_complete:
  assumes "slotLedgerOk d"
  shows "slotLedgerOk (snd (markLessonCompleted auth data now d))"
proof (cases "markLessonCompleted auth data now d")
  case (Pair r d')
  show ?thesis
  proof (cases r)
    case (Inl e)
    with Pair have "d' = d"
      by (auto simp: markLessonCompleted_def split: option.splits if_splits)
    with Pair assms show ?thesis by simp
  next
    case (Inr bid)
    from markLessonCompleted_Inr[OF Pair[unfolded Inr]] obtain iid booking where
      d': "d' = addNotification (studentId booking) ''rating_request'' (Some bid)
              (schedulePaymentRelease bid iid (price booking) (24 * 60 * 60 * 1000) now
                (chargeRemainingPayment bid booking
                  (triggerDetranValidation bid booking
                    (updateBooking bid
                       (\<lambda>b. b\<lparr>status := CONCLUIDA,
                              actualDuration := Some (lc_actualDuration data),
                              completedAt := Some now\<rparr>) d))))"
      by blast
    have "slotLedgerOk (updateBooking bid
                       (\<lambda>b. b\<lparr>status := CONCLUIDA,
                              actualDuration := Some (lc_actualDuration data),
                              completedAt := Some now\<rparr>) d)"
      by (rule ledger_updateBooking[OF assms]) (simp_all add: isActive_def)
    then have "slotLedgerOk d'"
      unfolding d'
      by (rule ledger_same)
         (simp_all add: addNotification_def schedulePaymentRelease_def Let_def
           chargeRemainingPayment_def triggerDetranValidation_frame)
    with Pair show ?thesis by simp
  qed
qed

lemma ledger_frames:
  "slotLedgerOk (addNotification u ty b d) = slotLedgerOk d"
  "slotLedgerOk (processRefund bid sid amount why d) = slotLedgerOk d"
  "slotLedgerOk (processRefund_timeout bid amount why d) = slotLedgerOk d"
  "slotLedgerOk (applyInstructorPenalty iid pen bid d) = slotLedgerOk d"
  "slotLedgerOk (markTimeoutProcessed t d) = slotLedgerOk d"
  "slotLedgerOk (markReleaseProcessed q d) = slotLedgerOk d"
  by (simp_all add: slotLedgerOk_iff ownsSlot_def addNotification_def processRefund_def
      processRefund_timeout_def applyInstructorPenalty_def markTimeoutProcessed_def
      markReleaseProcessed_def split: option.splits)

lemma ledger_cancel_writes:
  assumes ok: "slotLedgerOk d" and lt: "bid < length (bookings d)"
      and act: "isActive (bookings d ! bid)"
      and f: "\<And>b. instructorId (f b) = instructorId b \<and> date (f b) = date b"
      and off: "\<not> isActive (f (bookings d ! bid))"
  shows "slotLedgerOk (updateBooking bid f d)"
    and "slotLedgerOk ((updateBooking bid f d)
           \<lparr>calendar := (calendar (updateBooking bid f d))
              ((instructorId (bookings d ! bid), formatDateKey (date (bookings d ! bid))) := v)\<rparr>)"
proof -
  show 1: "slotLedgerOk (updateBooking bid f d)"
    by (rule ledger_updateBooking[OF ok f]) (simp add: off)
  show "slotLedgerOk ((updateBooking bid f d)
           \<lparr>calendar := (calendar (updateBooking bid f d))
              ((instructorId (bookings d ! bid), formatDateKey (date (bookings d ! bid))) := v)\<rparr>)"
    by (rule ledger_write_vacant_slot[OF 1 vacant_after_deactivation[OF ok lt act f off]])
qed

lemma isActive_iff: "isActive b = (status b \<noteq> CANCELADA \<and> status b \<noteq> CONCLUIDA)"
  by (cases "status b") (simp_all add: isActive_def)

lemma ledger_cancel:
  assumes "slotLedgerOk d"
  shows "slotLedgerOk (snd (cancelBooking auth data now d))"
proof (cases "\<exists>uid bid. auth = Some uid \<and> x_bookingId data = Some bid
                \<and> bid < length (bookings d)
                \<and> status (bookings d ! bid) \<noteq> CANCELADA
                \<and> status (bookings d ! bid) \<noteq> CONCLUIDA
                \<and> (if x_userType data = Student then studentId (bookings d ! bid) = uid
                    else instructorId (bookings d ! bid) = uid)")
  case False
  then have "snd (cancelBooking auth data now d) = d"
    by (cases "x_userType data")
       (auto simp: cancelBooking_def getBooking_def split: option.splits)
  with assms show ?thesis by simp
next
  case True
  then obtain uid bid where
    a: "auth = Some uid" and b: "x_bookingId data = Some bid" and
    lt: "bid < length (bookings d)" and
    st: "status (bookings d ! bid) \<noteq> CANCELADA" "status (bookings d ! bid) \<noteq> CONCLUIDA" and
    own: "if x_userType data = Student then studentId (bookings d ! bid) = uid
          else instructorId (bookings d ! bid) = uid"
    by blast
  from st have act: "isActive (bookings d ! bid)" by (simp add: isActive_iff)
  note w = ledger_cancel_writes[OF assms lt act]
  show ?thesis
    unfolding cancelBooking_def a b
    using lt st own
    by (cases "x_userType data")
       (auto simp: getBooking_def Let_def ledger_frames isActive_def intro!: w
         split: option.splits)
qed

lemma vacant_frames:
  "slotVacant (addNotification u ty b d) k = slotVacant d k"
  "slotVacant (processRefund_timeout bid amount why d) k = slotVacant d k"
  "slotVacant (markTimeoutProcessed t d) k = slotVacant d k"
  "slotVacant (d\<lparr>calendar := c\<rparr>) k = slotVacant d k"
  by (simp_all add: slotVacant_def addNotification_def processRefund_timeout_def
      markTimeoutProcessed_def)

lemma ledger_timeoutBody:
  assumes ok: "slotLedgerOk d"
  shows "case runWrites fuel (timeoutWrites now t d) d of
           Inl d' \<Rightarrow> slotLedgerOk d' | Inr (f, d') \<Rightarrow> slotLedgerOk d'"
proof (cases "\<exists>b. getBooking d (t_bookingId (bookingTimeouts d ! t)) = Some b
                  \<and> status b = PENDENTE")
  case False
  then have ws: "timeoutWrites now t d = [\<lambda>d. Some (markTimeoutProcessed t d)]"
    by (auto simp: timeoutWrites_def Let_def split: option.splits)
  show ?thesis
    unfolding ws
    by (rule runWrites_inv) (auto simp: ledger_frames ok)
next
  case True
  then obtain b where
    g: "getBooking d (t_bookingId (bookingTimeouts d ! t)) = Some b" and
    st: "status b = PENDENTE"
    by blast
  let ?bid = "t_bookingId (bookingTimeouts d ! t)"
  let ?k = "(instructorId b, formatDateKey (date b))"
  let ?f = "\<lambda>b. b\<lparr>status := CANCELADA,
                     cancellationReason := Some ''Instrutor nao aceitou em 2 horas'',
                     cancelledAt := Some now\<rparr>"
  let ?rest = "[\<lambda>d. Some (d\<lparr>calendar := (calendar d)(?k := None)\<rparr>),
                \<lambda>d. Some (processRefund_timeout ?bid (depositAmount b) ''timeout'' d),
                \<lambda>d. Some (addNotification (studentId b) ''booking_timeout'' (Some ?bid) d),
                \<lambda>d. Some (markTimeoutProcessed t d)]"
  let ?d1 = "updateBooking ?bid ?f d"
  from g have lt: "?bid < length (bookings d)" and bb: "bookings d ! ?bid = b"
    by (auto simp: getBooking_def split: if_splits)
  from st bb have act: "isActive (bookings d ! ?bid)" by (simp add: isActive_def)
  have ws: "timeoutWrites now t d = (\<lambda>d. Some (updateBooking ?bid ?f d)) # ?rest"
    using g st by (simp add: timeoutWrites_def Let_def)
  have f: "\<And>x. instructorId (?f x) = instructorId x \<and> date (?f x) = date x" by simp
  have off: "\<not> isActive (?f (bookings d ! ?bid))" by (simp add: isActive_def)
  have ok1: "slotLedgerOk ?d1"
    by (rule ledger_updateBooking[OF ok f]) (simp add: isActive_def)
  have vac1: "slotVacant ?d1 ?k"
    using vacant_after_deactivation[OF ok lt act f off] by (simp add: bb)
  have rest: "\<And>fuel'. case runWrites fuel' ?rest ?d1 of
                Inl d' \<Rightarrow> slotLedgerOk d' \<and> slotVacant d' ?k
              | Inr (f, d') \<Rightarrow> slotLedgerOk d' \<and> slotVacant d' ?k"
  proof -
    fix fuel'
    show "case runWrites fuel' ?rest ?d1 of
                Inl d' \<Rightarrow> slotLedgerOk d' \<and> slotVacant d' ?k
              | Inr (f, d') \<Rightarrow> slotLedgerOk d' \<and> slotVacant d' ?k"
    proof (rule runWrites_inv[where I = "\<lambda>d. slotLedgerOk d \<and> slotVacant d ?k"])
      show "slotLedgerOk ?d1 \<and> slotVacant ?d1 ?k" using ok1 vac1 by simp
    next
      fix w e e'
      assume w: "w \<in> set ?rest" and I: "slotLedgerOk e \<and> slotVacant e ?k"
         and we: "w e = Some e'"
      from w we consider
          "e' = e\<lparr>calendar := (calendar e)(?k := None)\<rparr>"
        | "e' = processRefund_timeout ?bid (depositAmount b) ''timeout'' e"
        | "e' = addNotification (studentId b) ''booking_timeout'' (Some ?bid) e"
        | "e' = markTimeoutProcessed t e"
        by auto
      then show "slotLedgerOk e' \<and> slotVacant e' ?k"
      proof cases
        case 1
        with I show ?thesis
          by (simp add: ledger_write_vacant_slot vacant_frames)
      next
        case 2
        with I show ?thesis by (simp add: ledger_frames vacant_frames)
      next
        case 3
        with I show ?thesis by (simp add: ledger_frames vacant_frames)
      next
        case 4
        with I show ?thesis by (simp add: ledger_frames vacant_frames)
      qed
    qed
  qed
  show ?thesis
  proof (cases fuel)
    case None
    with rest[of None] show ?thesis
      unfolding ws by (auto split: sum.splits)
  next
    case (Some n)
    show ?thesis
    proof (cases n)
      case 0
      with Some ok show ?thesis unfolding ws by simp
    next
      case (Suc m)
      with Some rest[of "Some m"] show ?thesis
        unfolding ws by (auto split: sum.splits)
    qed
  qed
qed

lemma ledger_timeoutLoop:
  "slotLedgerOk d \<Longrightarrow> slotLedgerOk (timeoutLoop now fuel ts d)"
proof (induction ts arbitrary: fuel d)
  case Nil
  then show ?case by simp
next
  case (Cons t ts)
  from ledger_timeoutBody[OF Cons.prems, of fuel now t]
  show ?case using Cons.IH by (auto split: sum.splits)
qed

lemma ledger_releaseWrites:
  assumes "w \<in> set (releaseWrites q r)" "slotLedgerOk d" "w d = Some d'"
  shows "slotLedgerOk d'"
proof -
  from assms(1,3) have "bookings d' = bookings d \<and> calendar d' = calendar d"
    by (auto simp: releaseWrites_def markReleaseProcessed_def creditWallet_def
        addNotification_def split: option.splits if_splits)
  with assms(2) show ?thesis by (auto intro: ledger_same)
qed

lemma ledger_releaseLoop:
  "slotLedgerOk d \<Longrightarrow> slotLedgerOk (releaseLoop fuel rs d)"
proof (induction rs arbitrary: fuel d)
  case Nil
  then show ?case by simp
next
  case (Cons qr rs)
  obtain q r where qr: "qr = (q, r)" by (cases qr)
  have "case runWrites fuel (releaseWrites q r) d of
          Inl d' \<Rightarrow> slotLedgerOk d' | Inr (f, d') \<Rightarrow> slotLedgerOk d'"
    by (rule runWrites_inv) (auto intro: ledger_releaseWrites Cons.prems)
  then show ?case using Cons.IH by (auto simp: qr split: sum.splits)
qed

lemma ledger_perform:
  assumes "slotLedgerOk d" and "\<not> isReschedule x"
  shows "slotLedgerOk (perform x d)"
  using assms
  by (cases x) (simp_all add: ledger_create ledger_confirm ledger_cancel ledger_complete
      processBookingTimeouts_def processPaymentReleases_def ledger_timeoutLoop
      ledger_releaseLoop)

lemma ledger_run:
  assumes "slotLedgerOk d" and "list_all (\<lambda>x. \<not> isReschedule x) xs"
  shows "slotLedgerOk (run xs d)"
  using assms by (induction xs arbitrary: d) (simp_all add: ledger_perform)

text \<open>
  From the empty platform, every history without a reschedule leaves at most one active
  booking in each slot of each instructor.
\<close>

lemma one_active_booking_per_slot_without_reschedule:
  assumes "list_all (\<lambda>x. \<not> isReschedule x) xs"
      and "a < length (bookings (run xs db0))" "b < length (bookings (run xs db0))"
      and "isActive (bookings (run xs db0) ! a)" "isActive (bookings (run xs db0) ! b)"
      and "instructorId (bookings (run xs db0) ! a) = instructorId (bookings (run xs db0) ! b)"
      and "formatDateKey (date (bookings (run xs db0) ! a))
             = formatDateKey (date (bookings (run xs db0) ! b))"
  shows "a = b"
  using slotLedgerOk_unique[OF ledger_run[OF slotLedgerOk_db0 assms(1)] assms(2-7)] .

text \<open>
  C1. The claim: of the create calls for one (provider, slot key) exactly one succeeds, the
  others see a conflict with nothing persisted, and in every reachable state at most one
  active booking exists per slot. Every history without a reschedule keeps this (the
  lemmas above), but
  \<open>rescheduleBooking\<close> moves a booking into a slot without reading the slot's calendar
  document: it only looks for an active booking at exactly the new instant. Booking 0 is
  created for 10:00, booking 1 for 11:00 and then rescheduled to 10:10; all three calls
  succeed, and afterwards two active bookings of instructor \<open>i1\<close> lie in calendar hour
  10, whose single slot document names booking 1 only. A create for 10:10 in place of the
  reschedule is rejected.
\<close>

theorem reschedule_double_books_slot:
  "(case createBooking (Some ''s1'') reqA 0 db0 of (r1, d1) \<Rightarrow>
    case createBooking (Some ''s2'') reqB 1000 d1 of (r2, d2) \<Rightarrow>
    case rescheduleBooking (Some ''s2'') reqR 2000 d2 of (r3, d3) \<Rightarrow>
      r1 = Inr 0 \<and> r2 = Inr 1 \<and> r3 = Inr (Num 0)
      \<and> map (\<lambda>b. (instructorId b, date b, formatDateKey (date b), status b)) (bookings d3)
          = [(''i1'', 36000000, 10, PENDENTE), (''i1'', 36600000, 10, PENDENTE)]
      \<and> length (activeInSlot d3 ''i1'' 10) = 2
      \<and> calendar d3 (''i1'', 10)
          = Some \<lparr>s_date = 36600000, s_reserved = True, s_bookingId = Some 1\<rparr>
      \<and> fst (createBooking (Some ''s2'')
               \<lparr>c_instructorId = ''i1'', c_date = Some 36600000, c_duration = Num 2\<rparr>
               2000 d2)
          = Inl (FunctionError VALIDATION_ERROR ''Calendar slot is reserved'' 409))"
  by code_simp

section \<open>Amounts of a booking\<close>

text \<open>
  A created booking stores the rounded 20 percent deposit and the difference as the
  remaining amount, so the two add up to the price.
\<close>

lemma createBooking_amounts:
  assumes "createBooking auth data now d = (Inr bid, d')"
  shows "depositAmount (bookings d' ! bid) = Math_round (js_mul (price (bookings d' ! bid)) (Num 0.2))
       \<and> remainingAmount (bookings d' ! bid)
           = js_sub (price (bookings d' ! bid)) (depositAmount (bookings d' ! bid))"
  using assms
  by (auto simp: createBooking_def createTransaction_def Let_def
      addNotification_def scheduleAcceptanceTimeout_def processDepositPayment_def
      newBooking_def split: option.splits if_splits)

lemma deposit_plus_remaining:
  "js_eq (js_add (Math_round (js_mul (Num p) (Num 0.2)))
                 (js_sub (Num p) (Math_round (js_mul (Num p) (Num 0.2))))) (Num p)"
  by simp

text \<open>
  The sum is kept by every call that does not change a duration: creation, confirmation,
  cancellation, completion, both handlers, however they are cut short, and a reschedule
  without a new duration.
\<close>

lemma amounts_updateBooking:
  assumes "list_all amountsAddUp (bookings d)"
      and "\<And>b. price (f b) = price b \<and> depositAmount (f b) = depositAmount b
                \<and> remainingAmount (f b) = remainingAmount b"
  shows "list_all amountsAddUp (bookings (updateBooking k f d))"
proof -
  have "list_all amountsAddUp ((bookings d)[k := f (bookings d ! k)])"
  proof (rule list_all_update[OF assms(1)])
    fix x assume "amountsAddUp x"
    then show "amountsAddUp (f x)" by (simp add: amountsAddUp_def assms(2))
  qed
  then show ?thesis by (simp add: updateBooking_def)
qed

lemma truthy_Num: "truthy x \<Longrightarrow> \<exists>a. x = Num a"
  by (cases x) simp_all

lemma js_or_Num: "\<exists>a. js_or x (Num c) = Num a"
  by (cases x) (auto dest: truthy_Num)

lemma amounts_new:
  assumes "truthy dur"
  shows "amountsAddUp (newBooking sid iid t dur (js_mul (js_or pph (Num 80)) dur)
            (Math_round (js_mul (js_mul (js_or pph (Num 80)) dur) (Num 0.2)))
            (js_sub (js_mul (js_or pph (Num 80)) dur)
               (Math_round (js_mul (js_mul (js_or pph (Num 80)) dur) (Num 0.2)))) now)"
proof -
  from assms obtain a where a: "dur = Num a" by (auto dest: truthy_Num)
  obtain c where c: "js_or pph (Num 80) = Num c" using js_or_Num by blast
  show ?thesis by (simp add: amountsAddUp_def newBooking_def a c)
qed

lemma amounts_create:
  assumes "list_all amountsAddUp (bookings d)"
  shows "list_all amountsAddUp (bookings (snd (createBooking auth data now d)))"
  using assms amounts_new
  by (auto simp: createBooking_def createTransaction_def Let_def addNotification_def
      scheduleAcceptanceTimeout_def processDepositPayment_def
      split: option.splits sum.splits)

lemma amounts_confirm:
  assumes "list_all amountsAddUp (bookings d)"
  shows "list_all amountsAddUp (bookings (snd (confirmBooking auth b now d)))"
  using assms
  by (auto simp: confirmBooking_def addNotification_def cancelTimeoutJob_def
      updatePaymentIntent_def amounts_updateBooking split: option.splits)

lemma amounts_cancel:
  assumes "list_all amountsAddUp (bookings d)"
  shows "list_all amountsAddUp (bookings (snd (cancelBooking auth data now d)))"
  using assms
  by (auto simp: cancelBooking_def Let_def addNotification_def processRefund_def
      applyInstructorPenalty_def amounts_updateBooking split: option.splits)

lemma amounts_complete:
  assumes "list_all amountsAddUp (bookings d)"
  shows "list_all amountsAddUp (bookings (snd (markLessonCompleted auth data now d)))"
  using assms
  by (auto simp: markLessonCompleted_def addNotification_def schedulePaymentRelease_def
      chargeRemainingPayment_def triggerDetranValidation_def Let_def amounts_updateBooking
      split: option.splits)

lemma amounts_rescheduleUpdates:
  assumes "amountsAddUp b" and "\<not> given ndur"
  shows "amountsAddUp (rescheduleUpdates b nd ndur fee)"
  using assms by (simp add: amountsAddUp_def rescheduleUpdates_def Let_def)

lemma amounts_reschedule:
  assumes "list_all amountsAddUp (bookings d)" and "\<not> given (rs_newDuration data)"
  shows "list_all amountsAddUp (bookings (snd (rescheduleBooking auth data now d)))"
proof (cases "rescheduleBooking auth data now d")
  case (Pair r d')
  show ?thesis
  proof (cases r)
    case (Inl e)
    with Pair have "d' = d"
      by (auto simp: rescheduleBooking_def Let_def split: option.splits if_splits sum.splits)
    with Pair assms(1) show ?thesis by simp
  next
    case (Inr fee)
    with Pair obtain sid bid nd d1 where
      tr: "rescheduleTransaction sid bid nd (rs_newDuration data) d = Inr (fee, d1)" and
      bk: "bookings d' = bookings d1"
      by (auto simp: rescheduleBooking_def Let_def addNotification_def
          chargeRescheduleFee_def split: option.splits if_splits sum.splits)
    from rescheduleTransaction_Inr[OF tr] have
      lt: "bid < length (bookings d)" and
      upd: "bookings d1 = (bookings d)
              [bid := rescheduleUpdates (bookings d ! bid) nd (rs_newDuration data) fee]"
      by simp_all
    from assms(1) lt have "amountsAddUp (bookings d ! bid)"
      by (simp add: list_all_length)
    then have "amountsAddUp (rescheduleUpdates (bookings d ! bid) nd (rs_newDuration data) fee)"
      using assms(2) by (rule amounts_rescheduleUpdates)
    with assms(1) have "list_all amountsAddUp (bookings d1)"
      unfolding upd by (rule list_all_set)
    with Pair bk show ?thesis by simp
  qed
qed

lemma amounts_timeoutWrites:
  assumes "w \<in> set (timeoutWrites now t d0)" "list_all amountsAddUp (bookings d)"
          "w d = Some d'"
  shows "list_all amountsAddUp (bookings d')"
  using assms
  by (auto simp: timeoutWrites_def Let_def amounts_updateBooking
      split: option.splits if_splits)
     (simp_all add: markTimeoutProcessed_def processRefund_timeout_def addNotification_def)

lemma amounts_timeoutLoop:
  "list_all amountsAddUp (bookings d)
     \<Longrightarrow> list_all amountsAddUp (bookings (timeoutLoop now fuel ts d))"
proof (induction ts arbitrary: fuel d)
  case Nil
  then show ?case by simp
next
  case (Cons t ts)
  have "case runWrites fuel (timeoutWrites now t d) d of
          Inl d' \<Rightarrow> list_all amountsAddUp (bookings d')
        | Inr (f, d') \<Rightarrow> list_all amountsAddUp (bookings d')"
    by (rule runWrites_inv[where I = "\<lambda>d. list_all amountsAddUp (bookings d)"])
       (auto intro: amounts_timeoutWrites Cons.prems)
  then show ?case using Cons.IH by (auto split: sum.splits)
qed

lemma amounts_releaseWrites:
  assumes "w \<in> set (releaseWrites q r)" "list_all amountsAddUp (bookings d)"
          "w d = Some d'"
  shows "list_all amountsAddUp (bookings d')"
  using assms
  by (auto simp: releaseWrites_def markReleaseProcessed_def creditWallet_def
      addNotification_def split: option.splits if_splits)

lemma amounts_releaseLoop:
  "list_all amountsAddUp (bookings d)
     \<Longrightarrow> list_all amountsAddUp (bookings (releaseLoop fuel rs d))"
proof (induction rs arbitrary: fuel d)
  case Nil
  then show ?case by simp
next
  case (Cons qr rs)
  obtain q r where qr: "qr = (q, r)" by (cases qr)
  have "case runWrites fuel (releaseWrites q r) d of
          Inl d' \<Rightarrow> list_all amountsAddUp (bookings d')
        | Inr (f, d') \<Rightarrow> list_all amountsAddUp (bookings d')"
    by (rule runWrites_inv[where I = "\<lambda>d. list_all amountsAddUp (bookings d)"])
       (auto intro: amounts_releaseWrites Cons.prems)
  then show ?case using Cons.IH by (auto simp: qr split: sum.splits)
qed

lemma amounts_perform:
  assumes "list_all amountsAddUp (bookings d)" and "\<not> changesDuration x"
  shows "list_all amountsAddUp (bookings (perform x d))"
  using assms
  by (cases x) (simp_all add: amounts_create amounts_confirm amounts_cancel
      amounts_reschedule amounts_complete processBookingTimeouts_def
      processPaymentReleases_def amounts_timeoutLoop amounts_releaseLoop)

lemma amounts_run:
  assumes "list_all amountsAddUp (bookings d)" and "list_all (\<lambda>x. \<not> changesDuration x) xs"
  shows "list_all amountsAddUp (bookings (run xs d))"
  using assms by (induction xs arbitrary: d) (simp_all add: amounts_perform)

text \<open>
  C2. The claim: deposit plus remaining equals the price for every booking in every
  reachable state, also after a reschedule that supplies a new duration. The sum is an
  invariant of every other call (\<open>amounts_run\<close>), not of that one. Booking 0 is
  created with price 140, deposit 28 and remaining 112. Its first reschedule, with a new
  duration of three hours, succeeds and overwrites the price with
  \<open>booking.pricePerHour * newDuration\<close>; the booking document has no \<open>pricePerHour\<close>
  field, so the price becomes \<open>NaN\<close>, while deposit and remaining stay 28 and 112.
\<close>

theorem reschedule_duration_breaks_amounts:
  "(case rescheduleBooking (Some ''s1'') reqDur 1000 dbA of (r, d') \<Rightarrow>
      map (\<lambda>b. (price b, depositAmount b, remainingAmount b)) (bookings dbA)
        = [(Num 140, Num 28, Num 112)]
      \<and> r = Inr (Num 0)
      \<and> map (\<lambda>b. (duration b, price b, depositAmount b, remainingAmount b)) (bookings d')
          = [(Num 3, NaN, Num 28, Num 112)]
      \<and> map (\<lambda>b. js_eq (js_add (depositAmount b) (remainingAmount b)) (price b)) (bookings d')
          = [False])"
  by code_simp

section \<open>Scheduled handlers run again\<close>

text \<open>
  The timeout handler reads the booking before it writes and cancels only a pending one.
  For a booking that is no longer pending, a run of the handler, cut short anywhere or
  not at all, leaves the booking document and the refunds of that booking as they are.
  The cancelling write is the first of the loop body, so a run that got as far as the
  refund has left the booking cancelled, and a redelivered run does not cancel or refund
  it again.
\<close>

lemma frozen_timeoutWrites:
  assumes "w \<in> set (timeoutWrites now t d0)" and "status b \<noteq> PENDENTE"
      and "frozen bid b rs d0" and "frozen bid b rs d" and "w d = Some d'"
  shows "frozen bid b rs d'"
proof (cases "t_bookingId (bookingTimeouts d0 ! t) = bid")
  case True
  with assms(2,3) have "timeoutWrites now t d0 = [\<lambda>d. Some (markTimeoutProcessed t d)]"
    by (simp add: timeoutWrites_def Let_def getBooking_def frozen_def)
  with assms(1,4,5) show ?thesis
    by (auto simp: frozen_def markTimeoutProcessed_def)
next
  case False
  with assms(1,4,5) show ?thesis
    by (auto simp: timeoutWrites_def Let_def frozen_def markTimeoutProcessed_def
        updateBooking_def processRefund_timeout_def addNotification_def
        split: option.splits if_splits)
qed

lemma frozen_timeoutLoop:
  assumes "status b \<noteq> PENDENTE"
  shows "frozen bid b rs d \<Longrightarrow> frozen bid b rs (timeoutLoop now fuel ts d)"
proof (induction ts arbitrary: fuel d)
  case Nil
  then show ?case by simp
next
  case (Cons t ts)
  have "case runWrites fuel (timeoutWrites now t d) d of
          Inl d' \<Rightarrow> frozen bid b rs d' | Inr (f, d') \<Rightarrow> frozen bid b rs d'"
  proof (rule runWrites_inv)
    fix w e e'
    assume "w \<in> set (timeoutWrites now t d)" "frozen bid b rs e" "w e = Some e'"
    then show "frozen bid b rs e'"
      using frozen_timeoutWrites[OF _ assms Cons.prems] by blast
  next
    show "frozen bid b rs d" by (rule Cons.prems)
  qed
  then show ?case using Cons.IH by (auto split: sum.splits)
qed

lemma timeout_handler_does_not_refire:
  assumes "notPending bid d"
  shows "bookings (processBookingTimeouts now fuel d) ! bid = bookings d ! bid
       \<and> filter (\<lambda>r. rf_bookingId r = bid) (refunds (processBookingTimeouts now fuel d))
           = filter (\<lambda>r. rf_bookingId r = bid) (refunds d)"
proof -
  let ?b = "bookings d ! bid" and ?rs = "filter (\<lambda>r. rf_bookingId r = bid) (refunds d)"
  from assms have st: "status ?b \<noteq> PENDENTE" and fr: "frozen bid ?b ?rs d"
    by (simp_all add: notPending_def frozen_def)
  have "frozen bid ?b ?rs (processBookingTimeouts now fuel d)"
    unfolding processBookingTimeouts_def by (rule frozen_timeoutLoop[OF st fr])
  then show ?thesis by (simp add: frozen_def)
qed

text \<open>
  On the pending booking 0, whose timeout is due at two hours: wherever the first run of
  the handler is cut short, after the redelivered run the booking has at most one refund;
  a first run cut short after the cancelling write leaves none.
\<close>

lemma timeout_redelivered_example:
  "list_all (\<lambda>fuel.
       let d1 = processBookingTimeouts 7200000 fuel dbA;
           d2 = processBookingTimeouts 7260000 None d1
       in length (refunds d2) \<le> 1 \<and> map t_processed (bookingTimeouts d2) = [True])
     [None, Some 0, Some 1, Some 2, Some 3, Some 4, Some 5]
   \<and> (let d1 = processBookingTimeouts 7200000 (Some 1) dbA;
           d2 = processBookingTimeouts 7260000 None d1
       in map status (bookings d2) = [CANCELADA] \<and> refunds d2 = [])"
  by code_simp

text \<open>
  C3. The claim: processing the PaymentRelease deadline of a booking twice, also when the
  handler dies mid-processing and the record is redelivered, credits the provider's wallet
  exactly once; and a redelivered AcceptanceTimeout handler never cancels or refunds
  twice. The timeout part holds (the lemmas above). The release handler credits the wallet
  as its first write and sets \<open>processed\<close> as its last, with no guard in between.
  Booking 0 is completed with a release of 119 due at 122400000. A first run that is cut
  short at its second write (the transaction log) has credited 119 and left the record
  unprocessed; the next run credits 119 again: the wallet holds 238. Two uninterrupted
  runs credit 119 once.
\<close>

theorem release_redelivery_credits_twice:
  "(let d1 = processPaymentReleases 122400000 (Some 1) dbCompleted;
        d2 = processPaymentReleases 122700000 None d1;
        e1 = processPaymentReleases 122400000 None dbCompleted;
        e2 = processPaymentReleases 122700000 None e1
    in map (\<lambda>r. (pr_bookingId r, pr_instructorAmount r, pr_scheduledFor r, pr_processed r))
           (paymentReleaseQueue dbCompleted) = [(0, Num 119, 122400000, False)]
     \<and> map_option wallet_available (instructors dbCompleted ''i1'') = Some (Num 0)
     \<and> map_option wallet_available (instructors d1 ''i1'') = Some (Num 119)
     \<and> map pr_processed (paymentReleaseQueue d1) = [False]
     \<and> walletTransactions d1 = []
     \<and> map_option wallet_available (instructors d2 ''i1'') = Some (Num 238)
     \<and> map pr_processed (paymentReleaseQueue d2) = [True]
     \<and> map w_amount (walletTransactions d2) = [Num 119]
     \<and> map_option wallet_available (instructors e2 ''i1'') = Some (Num 119))"
  by code_simp

section \<open>The settlement split\<close>

text \<open>The fee and the instructor amount of a release, by the price of the booking.\<close>

lemma split_of_number:
  "Math_round (js_mul (Num t) (Num 0.15)) = Num (of_int \<lfloor>t * 0.15 + 1 / 2\<rfloor>)
   \<and> js_sub (Num t) (Math_round (js_mul (Num t) (Num 0.15)))
       = Num (t - of_int \<lfloor>t * 0.15 + 1 / 2\<rfloor>)"
  by simp




text \<open>
  A booking whose price is \<open>NaN\<close> is reachable and can be completed: booking 0 is
  rescheduled with a new duration, confirmed, and marked completed. The queued release
  holds \<open>NaN\<close> three times, and its fee and instructor amount do not add up to its total.
\<close>

lemma settlement_of_nan_price_example:
  "(case markLessonCompleted (Some ''i1'') completion 39600000
          (run [RescheduleBooking (Some ''s1'') reqDur 1000,
                ConfirmBooking (Some ''i1'') (Some 0) 2000] dbA) of (r, d') \<Rightarrow>
      r = Inr 0
      \<and> map (\<lambda>q. (pr_totalAmount q, pr_platformFee q, pr_instructorAmount q))
            (paymentReleaseQueue d') = [(NaN, NaN, NaN)]
      \<and> \<not> list_ex (\<lambda>q. js_eq (js_add (pr_platformFee q) (pr_instructorAmount q))
                              (pr_totalAmount q)) (paymentReleaseQueue d'))"
  by code_simp


section \<open>The cancellation policy\<close>

text \<open>
  C5. The pure policy function returns the tabulated values for every role, every number
  of hours until the start and every price: a requester under 24 hours gets a full refund
  and no penalty, a requester at 24 hours or more gets half and a penalty of half the
  price; a provider under 12 hours causes a full refund and a penalty of the whole price,
  a provider at 12 hours or more a full refund and no penalty.
\<close>

theorem policy_table:
  "(h < 24 \<longrightarrow>
      refundPercentage (calculateCancellationPolicy Student h p dep) = Num 1.0
      \<and> policy_penaltyAmount (calculateCancellationPolicy Student h p dep) = Num 0)
   \<and> (24 \<le> h \<longrightarrow>
      refundPercentage (calculateCancellationPolicy Student h p dep) = Num 0.5
      \<and> policy_penaltyAmount (calculateCancellationPolicy Student h p dep)
          = js_mul (Num 0.5) p)
   \<and> (h < 12 \<longrightarrow>
      refundPercentage (calculateCancellationPolicy Instructor h p dep) = Num 1.0
      \<and> policy_penaltyAmount (calculateCancellationPolicy Instructor h p dep)
          = js_mul (Num 1.0) p)
   \<and> (12 \<le> h \<longrightarrow>
      refundPercentage (calculateCancellationPolicy Instructor h p dep) = Num 1.0
      \<and> policy_penaltyAmount (calculateCancellationPolicy Instructor h p dep) = Num 0)"
  by (cases p) (simp_all add: calculateCancellationPolicy_def)

theorem policy_table_witness:
  "refundPercentage (calculateCancellationPolicy Student 10 (Num 140) (Num 28)) = Num 1
   \<and> policy_penaltyAmount (calculateCancellationPolicy Student 10 (Num 140) (Num 28)) = Num 0
   \<and> refundPercentage (calculateCancellationPolicy Student 30 (Num 140) (Num 28)) = Num (1 / 2)
   \<and> policy_penaltyAmount (calculateCancellationPolicy Student 30 (Num 140) (Num 28)) = Num 70
   \<and> refundPercentage (calculateCancellationPolicy Instructor 5 (Num 140) (Num 28)) = Num 1
   \<and> policy_penaltyAmount (calculateCancellationPolicy Instructor 5 (Num 140) (Num 28)) = Num 140
   \<and> refundPercentage (calculateCancellationPolicy Instructor 12 (Num 140) (Num 28)) = Num 1
   \<and> policy_penaltyAmount (calculateCancellationPolicy Instructor 12 (Num 140) (Num 28)) = Num 0"
  using policy_table[of 10 "Num 140" "Num 28"] policy_table[of 30 "Num 140" "Num 28"]
        policy_table[of 5 "Num 140" "Num 28"] policy_table[of 12 "Num 140" "Num 28"]
  by simp

section \<open>A late cancellation by the requester\<close>




text \<open>
  Both other cases are reachable. In the first history booking 1 is rescheduled into the
  calendar hour of the confirmed booking 0 and then times out, which deletes the slot
  document; the student's cancellation of booking 0, almost 28 hours ahead, then writes
  the booking and fails, and no refund is recorded for it. In the second history the
  booking was rescheduled with a new duration, so its price is \<open>NaN\<close>; its cancellation
  succeeds and refunds nothing.
\<close>

lemma late_cancel_slot_missing_example:
  "(case cancelBooking (Some ''s1'') cancelByStudent 7300000
          (run [CreateBooking (Some ''s1'') reqLate 0,
                CreateBooking (Some ''s2'')
                  \<lparr>c_instructorId = ''i1'', c_date = Some 111600000, c_duration = Num 1\<rparr> 0,
                ConfirmBooking (Some ''i1'') (Some 0) 1000,
                RescheduleBooking (Some ''s2'')
                  \<lparr>rs_bookingId = Some 1, rs_newDate = Some 108600000,
                    rs_newDuration = None\<rparr> 2000,
                ProcessBookingTimeouts 7200000 None] db0) of (r, d') \<Rightarrow>
      r = Inl InternalError
      \<and> map (\<lambda>b. (studentId b, status b, refundAmount b)) (bookings d')
          = [(''s1'', CANCELADA, Some (Num 70)), (''s2'', CANCELADA, None)]
      \<and> filter (\<lambda>f. rf_bookingId f = 0) (refunds d') = []
      \<and> calendar d' (''i1'', 30) = None)"
  by code_simp

lemma late_cancel_nan_price_example:
  "(case cancelBooking (Some ''s1'') cancelByStudent 2000
          (run [RescheduleBooking (Some ''s1'')
                  \<lparr>rs_bookingId = Some 0, rs_newDate = Some 111600000,
                    rs_newDuration = Some (Num 3)\<rparr> 1000] dbLate) of (r, d') \<Rightarrow>
      r = Inr \<lparr>res_refundAmount = NaN, res_penaltyAmount = NaN\<rparr>
      \<and> map (\<lambda>b. (price b, status b)) (bookings d') = [(NaN, CANCELADA)]
      \<and> refunds d' = [])"
  by code_simp


section \<open>The status of a booking never returns to pending\<close>

lemma notPending_updateBooking:
  "notPending bid d \<Longrightarrow> status (f (bookings d ! k)) \<noteq> PENDENTE
     \<Longrightarrow> notPending bid (updateBooking k f d)"
  by (cases "k = bid") (simp_all add: notPending_def updateBooking_def)

lemma notPending_create:
  "notPending bid d \<Longrightarrow> notPending bid (snd (createBooking auth data now d))"
  by (auto simp: notPending_def createBooking_def createTransaction_def Let_def
      addNotification_def scheduleAcceptanceTimeout_def processDepositPayment_def nth_append
      split: option.splits sum.splits)

lemma notPending_confirm:
  "notPending bid d \<Longrightarrow> notPending bid (snd (confirmBooking auth b now d))"
  by (auto simp: notPending_def confirmBooking_def addNotification_def cancelTimeoutJob_def
      updatePaymentIntent_def updateBooking_def nth_list_update getBooking_def
      split: option.splits if_splits)

lemma notPending_cancel:
  "notPending bid d \<Longrightarrow> notPending bid (snd (cancelBooking auth data now d))"
  by (auto simp: notPending_def cancelBooking_def Let_def addNotification_def
      processRefund_def applyInstructorPenalty_def updateBooking_def nth_list_update
      getBooking_def split: option.splits if_splits)

lemma notPending_reschedule:
  "notPending bid d \<Longrightarrow> notPending bid (snd (rescheduleBooking auth data now d))"
  by (auto simp: notPending_def rescheduleBooking_def rescheduleTransaction_def Let_def
      addNotification_def chargeRescheduleFee_def rescheduleUpdates_def updateBooking_def
      nth_list_update getBooking_def split: option.splits if_splits sum.splits)

lemma notPending_complete:
  "notPending bid d \<Longrightarrow> notPending bid (snd (markLessonCompleted auth data now d))"
  by (auto simp: notPending_def markLessonCompleted_def addNotification_def
      schedulePaymentRelease_def chargeRemainingPayment_def triggerDetranValidation_def
      Let_def updateBooking_def nth_list_update getBooking_def
      split: option.splits if_splits)

lemma notPending_timeoutWrites:
  assumes "w \<in> set (timeoutWrites now t d0)" "notPending bid d" "w d = Some d'"
  shows "notPending bid d'"
  using assms
  by (auto simp: timeoutWrites_def Let_def notPending_updateBooking
      split: option.splits if_splits)
     (simp_all add: notPending_def markTimeoutProcessed_def processRefund_timeout_def
      addNotification_def)

lemma notPending_timeoutLoop:
  "notPending bid d \<Longrightarrow> notPending bid (timeoutLoop now fuel ts d)"
proof (induction ts arbitrary: fuel d)
  case Nil
  then show ?case by simp
next
  case (Cons t ts)
  have "case runWrites fuel (timeoutWrites now t d) d of
          Inl d' \<Rightarrow> notPending bid d' | Inr (f, d') \<Rightarrow> notPending bid d'"
    by (rule runWrites_inv) (auto intro: notPending_timeoutWrites Cons.prems)
  then show ?case using Cons.IH by (auto split: sum.splits)
qed

lemma notPending_releaseWrites:
  assumes "w \<in> set (releaseWrites q r)" "notPending bid d" "w d = Some d'"
  shows "notPending bid d'"
  using assms
  by (auto simp: releaseWrites_def notPending_def markReleaseProcessed_def creditWallet_def
      addNotification_def split: option.splits if_splits)

lemma notPending_releaseLoop:
  "notPending bid d \<Longrightarrow> notPending bid (releaseLoop fuel rs d)"
proof (induction rs arbitrary: fuel d)
  case Nil
  then show ?case by simp
next
  case (Cons qr rs)
  obtain q r where qr: "qr = (q, r)" by (cases qr)
  have "case runWrites fuel (releaseWrites q r) d of
          Inl d' \<Rightarrow> notPending bid d' | Inr (f, d') \<Rightarrow> notPending bid d'"
    by (rule runWrites_inv) (auto intro: notPending_releaseWrites Cons.prems)
  then show ?case using Cons.IH by (auto simp: qr split: sum.splits)
qed

lemma notPending_perform: "notPending bid d \<Longrightarrow> notPending bid (perform x d)"
  by (cases x) (simp_all add: notPending_create notPending_confirm notPending_cancel
      notPending_reschedule notPending_complete processBookingTimeouts_def
      processPaymentReleases_def notPending_timeoutLoop notPending_releaseLoop)

lemma notPending_run: "notPending bid d \<Longrightarrow> notPending bid (run xs d)"
  by (induction xs arbitrary: d) (simp_all add: notPending_perform)

section \<open>confirmBooking against its guard\<close>

lemma confirm_rejects_notPending:
  "notPending bid d \<Longrightarrow> \<exists>e. confirmBooking auth (Some bid) now d = (Inl e, d)"
  by (auto simp: notPending_def confirmBooking_def getBooking_def split: option.splits)

lemma filter_map_none:
  "(\<And>x. \<not> P (f x)) \<Longrightarrow> filter P (map f xs) = []"
  by (induction xs) simp_all

lemma cancelTimeoutJob_none_left:
  "filter (\<lambda>t. t_bookingId t = bid \<and> t_processed t = False)
          (bookingTimeouts (cancelTimeoutJob bid d)) = []"
proof -
  have "filter (\<lambda>t. t_bookingId t = bid \<and> t_processed t = False)
          (map (\<lambda>t. if t_bookingId t = bid \<and> t_processed t = False
                 then t\<lparr>t_processed := True, t_cancelled := True\<rparr> else t)
            (bookingTimeouts d)) = []"
    by (rule filter_map_none) simp
  then show ?thesis by (simp add: cancelTimeoutJob_def)
qed

text \<open>
  C7, as amended. \<open>confirmBooking\<close> succeeds exactly when the booking is pending, at
  most two hours old and the caller is its instructor; a rejected call changes nothing.
  A successful call sets the status to confirmed (and \<open>confirmedAt\<close>), marks every
  unprocessed timeout job of the booking processed and cancelled without running it, and
  besides appends one payment intent for the remaining amount and one notification to the
  student; nothing else changes. After it, whatever calls follow, every confirm of the
  same booking is rejected and changes nothing.
\<close>

theorem confirm_contract:
  "((\<exists>r. fst (confirmBooking auth bookingId now d) = Inr r)
      = spec_confirmAllowed auth bookingId now d)
   \<and> (\<not> spec_confirmAllowed auth bookingId now d \<longrightarrow>
        snd (confirmBooking auth bookingId now d) = d)
   \<and> (spec_confirmAllowed auth bookingId now d \<longrightarrow>
        (\<exists>bid b. bookingId = Some bid \<and> getBooking d bid = Some b
           \<and> fst (confirmBooking auth bookingId now d) = Inr bid
           \<and> snd (confirmBooking auth bookingId now d) =
               d\<lparr>bookings := (bookings d)
                     [bid := b\<lparr>status := CONFIRMADA, confirmedAt := Some now\<rparr>],
                 bookingTimeouts :=
                   map (\<lambda>t. if t_bookingId t = bid \<and> t_processed t = False
                            then t\<lparr>t_processed := True, t_cancelled := True\<rparr> else t)
                       (bookingTimeouts d),
                 paymentIntents := paymentIntents d @
                   [\<lparr>pi_bookingId = bid, pi_amount = remainingAmount b\<rparr>],
                 notifications := notifications d @
                   [\<lparr>n_userId = studentId b, n_type = ''booking_confirmed'',
                     n_bookingId = Some bid\<rparr>]\<rparr>
           \<and> filter (\<lambda>t. t_bookingId t = bid \<and> t_processed t = False)
                (bookingTimeouts (snd (confirmBooking auth bookingId now d))) = []
           \<and> (\<forall>ops auth' now'. \<exists>e.
                 confirmBooking auth' bookingId now'
                   (run ops (snd (confirmBooking auth bookingId now d)))
                 = (Inl e, run ops (snd (confirmBooking auth bookingId now d))))))"
proof (intro conjI impI)
  show "(\<exists>r. fst (confirmBooking auth bookingId now d) = Inr r)
      = spec_confirmAllowed auth bookingId now d"
    by (rule confirm_succeeds_iff)
next
  assume "\<not> spec_confirmAllowed auth bookingId now d"
  then show "snd (confirmBooking auth bookingId now d) = d"
    by (rule confirm_rejected_unchanged)
next
  assume ok: "spec_confirmAllowed auth bookingId now d"
  from confirm_success_state[OF ok] obtain bid b where
    bk: "bookingId = Some bid" and g: "getBooking d bid = Some b" and
    eq: "confirmBooking auth bookingId now d =
         (Inr bid,
          addNotification (studentId b) ''booking_confirmed'' (Some bid)
            (cancelTimeoutJob bid
              (updatePaymentIntent bid (remainingAmount b)
                (updateBooking bid
                   (\<lambda>b. b\<lparr>status := CONFIRMADA, confirmedAt := Some now\<rparr>) d))))"
    by blast
  let ?d' = "snd (confirmBooking auth bookingId now d)"
  from g have lt: "bid < length (bookings d)" and bb: "bookings d ! bid = b"
    by (auto simp: getBooking_def split: if_splits)
  have st: "?d' =
               d\<lparr>bookings := (bookings d)
                     [bid := b\<lparr>status := CONFIRMADA, confirmedAt := Some now\<rparr>],
                 bookingTimeouts :=
                   map (\<lambda>t. if t_bookingId t = bid \<and> t_processed t = False
                            then t\<lparr>t_processed := True, t_cancelled := True\<rparr> else t)
                       (bookingTimeouts d),
                 paymentIntents := paymentIntents d @
                   [\<lparr>pi_bookingId = bid, pi_amount = remainingAmount b\<rparr>],
                 notifications := notifications d @
                   [\<lparr>n_userId = studentId b, n_type = ''booking_confirmed'',
                     n_bookingId = Some bid\<rparr>]\<rparr>"
    unfolding eq
    by (simp add: addNotification_def cancelTimeoutJob_def updatePaymentIntent_def
        updateBooking_def bb)
  have none: "filter (\<lambda>t. t_bookingId t = bid \<and> t_processed t = False)
                (bookingTimeouts ?d') = []"
    unfolding eq
    using cancelTimeoutJob_none_left[of bid "updatePaymentIntent bid (remainingAmount b)
                (updateBooking bid
                   (\<lambda>b. b\<lparr>status := CONFIRMADA, confirmedAt := Some now\<rparr>) d)"]
    by (simp add: addNotification_def)
  have np: "notPending bid ?d'"
    unfolding st using lt by (simp add: notPending_def)
  have later: "\<forall>ops auth' now'. \<exists>e.
                 confirmBooking auth' bookingId now' (run ops ?d') = (Inl e, run ops ?d')"
  proof (intro allI)
    fix ops auth' now'
    have "notPending bid (run ops ?d')" by (rule notPending_run[OF np])
    from confirm_rejects_notPending[OF this, of auth' now']
    show "\<exists>e. confirmBooking auth' bookingId now' (run ops ?d') = (Inl e, run ops ?d')"
      by (simp add: bk)
  qed
  have f: "fst (confirmBooking auth bookingId now d) = Inr bid"
    unfolding eq by simp
  show "\<exists>bid b. bookingId = Some bid \<and> getBooking d bid = Some b
           \<and> fst (confirmBooking auth bookingId now d) = Inr bid
           \<and> snd (confirmBooking auth bookingId now d) =
               d\<lparr>bookings := (bookings d)
                     [bid := b\<lparr>status := CONFIRMADA, confirmedAt := Some now\<rparr>],
                 bookingTimeouts :=
                   map (\<lambda>t. if t_bookingId t = bid \<and> t_processed t = False
                            then t\<lparr>t_processed := True, t_cancelled := True\<rparr> else t)
                       (bookingTimeouts d),
                 paymentIntents := paymentIntents d @
                   [\<lparr>pi_bookingId = bid, pi_amount = remainingAmount b\<rparr>],
                 notifications := notifications d @
                   [\<lparr>n_userId = studentId b, n_type = ''booking_confirmed'',
                     n_bookingId = Some bid\<rparr>]\<rparr>
           \<and> filter (\<lambda>t. t_bookingId t = bid \<and> t_processed t = False)
                (bookingTimeouts (snd (confirmBooking auth bookingId now d))) = []
           \<and> (\<forall>ops auth' now'. \<exists>e.
                 confirmBooking auth' bookingId now'
                   (run ops (snd (confirmBooking auth bookingId now d)))
                 = (Inl e, run ops (snd (confirmBooking auth bookingId now d))))"
    using bk g f st none later
    by - (rule exI[of _ bid], rule exI[of _ b], (rule conjI, assumption)+, assumption)
qed

text \<open>
  On the concrete platform: the instructor confirms booking 0 one second after its
  creation; a later confirm, after the timeout handler and a reschedule have run, is
  rejected and changes nothing.
\<close>

theorem confirm_contract_witness:
  "spec_confirmAllowed (Some ''i1'') (Some 0) 1000 dbA
   \<and> fst (confirmBooking (Some ''i1'') (Some 0) 1000 dbA) = Inr 0
   \<and> (\<exists>e. confirmBooking (Some ''i1'') (Some 0) 2000
              (run [ProcessBookingTimeouts 7200000 None,
                    RescheduleBooking (Some ''s1'') reqMove 3000]
                 (snd (confirmBooking (Some ''i1'') (Some 0) 1000 dbA)))
           = (Inl e,
              run [ProcessBookingTimeouts 7200000 None,
                   RescheduleBooking (Some ''s1'') reqMove 3000]
                 (snd (confirmBooking (Some ''i1'') (Some 0) 1000 dbA))))"
proof -
  have ok: "spec_confirmAllowed (Some ''i1'') (Some 0) 1000 dbA" by code_simp
  from confirm_contract[of "Some ''i1''" "Some 0" 1000 dbA] ok
  obtain bid b where
    bid: "Some 0 = Some bid" and
    g: "getBooking dbA bid = Some b" and
    f: "fst (confirmBooking (Some ''i1'') (Some 0) 1000 dbA) = Inr bid" and
    later: "\<forall>ops auth' now'. \<exists>e.
               confirmBooking auth' (Some 0) now'
                 (run ops (snd (confirmBooking (Some ''i1'') (Some 0) 1000 dbA)))
               = (Inl e, run ops (snd (confirmBooking (Some ''i1'') (Some 0) 1000 dbA)))"
    by blast
  from bid f have f0: "fst (confirmBooking (Some ''i1'') (Some 0) 1000 dbA) = Inr 0"
    by simp
  from later have "\<exists>e. confirmBooking (Some ''i1'') (Some 0) 2000
              (run [ProcessBookingTimeouts 7200000 None,
                    RescheduleBooking (Some ''s1'') reqMove 3000]
                 (snd (confirmBooking (Some ''i1'') (Some 0) 1000 dbA)))
           = (Inl e,
              run [ProcessBookingTimeouts 7200000 None,
                   RescheduleBooking (Some ''s1'') reqMove 3000]
                 (snd (confirmBooking (Some ''i1'') (Some 0) 1000 dbA)))"
    by blast
  with ok f0 show ?thesis by blast
qed

text \<open>
  The claim as stated fails: it names the status and the timeout record as the only
  effects of a successful confirm. Confirming booking 0 also stores a payment intent for
  the remaining 112 and sends a notification.
\<close>

theorem confirm_other_effects_counterexample:
  "(case confirmBooking (Some ''i1'') (Some 0) 1000 dbA of (r, d') \<Rightarrow>
      r = Inr 0
      \<and> map status (bookings d') = [CONFIRMADA]
      \<and> map t_processed (bookingTimeouts d') = [True]
      \<and> paymentIntents dbA = []
      \<and> paymentIntents d' = [\<lparr>pi_bookingId = 0, pi_amount = Num 112\<rparr>]
      \<and> map n_type (notifications dbA) = [''new_booking'']
      \<and> map n_type (notifications d') = [''new_booking'', ''booking_confirmed''])"
  by code_simp

section \<open>markLessonCompleted against the status\<close>

text \<open>
  C8. The claim: completing is allowed exactly when the booking is confirmed and its start
  has passed, so a booking still requested or already cancelled can never become
  completed. \<open>markLessonCompleted\<close> rejects only a booking that is already completed
  (its guard in full is \<open>markLessonCompleted_succeeds_iff\<close>).
  Booking 0 is created for 10:00 and cancelled by its student; at 10:00 its instructor
  marks it completed, the call succeeds, the status goes from cancelled to completed, the
  remaining 112 is charged and a release of 119 is queued. The same call on the booking
  left pending succeeds as well.
\<close>

theorem cancelled_booking_completed:
  "(let d1 = run [CancelBooking (Some ''s1'') cancelByStudent 1000] dbA in
    case markLessonCompleted (Some ''i1'') completion 36000000 d1 of (r, d2) \<Rightarrow>
      map status (bookings d1) = [CANCELADA]
      \<and> map rf_amount (refunds d1) = [Num 140]
      \<and> r = Inr 0
      \<and> map status (bookings d2) = [CONCLUIDA]
      \<and> map (\<lambda>p. (p_type p, p_amount p)) (payments d2)
          = [(''deposit'', Num 28), (''remaining_payment'', Num 112)]
      \<and> map pr_instructorAmount (paymentReleaseQueue d2) = [Num 119])
   \<and> (case markLessonCompleted (Some ''i1'') completion 36000000 dbA of (r, d2) \<Rightarrow>
      map status (bookings dbA) = [PENDENTE]
      \<and> r = Inr 0
      \<and> map status (bookings d2) = [CONCLUIDA])"
  by code_simp

section \<open>The reschedule fee\<close>

text \<open>
  C9, as amended. A successful reschedule charges fee 0 when the booking has not been
  rescheduled before, and otherwise 10 percent, rounded half up, of the price the booking
  document holds when the call starts (the price as earlier calls left it, before this
  call's own change of duration); the fee is not cumulative. It increments
  \<open>rescheduleCount\<close> by one, and it charges the fee as a payment exactly when the fee
  is greater than 0.
\<close>

theorem reschedule_fee:
  assumes ok: "rescheduleBooking auth data now d = (Inr fee, d')"
      and bid: "rs_bookingId data = Some bid"
  shows "fee = (if rescheduleCount (bookings d ! bid) = 0 then Num 0
                else Math_round (js_mul (price (bookings d ! bid)) (Num 0.1)))
       \<and> rescheduleCount (bookings d' ! bid) = rescheduleCount (bookings d ! bid) + 1
       \<and> payments d' =
            (if js_gt fee (Num 0)
             then payments d @ [\<lparr>p_bookingId = bid, p_studentId = studentId (bookings d ! bid),
                    p_amount = fee, p_type = ''reschedule_fee'', p_status = ''pendente''\<rparr>]
             else payments d)"
proof -
  from ok bid obtain sid nd d1 where
    tr: "rescheduleTransaction sid bid nd (rs_newDuration data) d = Inr (fee, d1)" and
    d': "d' = (let d2 = (if js_gt fee (Num 0) then chargeRescheduleFee bid sid fee d1 else d1)
               in addNotification (instructorId (bookings d2 ! bid))
                    ''booking_rescheduled'' (Some bid) d2)"
    by (auto simp: rescheduleBooking_def Let_def split: option.splits if_splits sum.splits)
  note inv = rescheduleTransaction_Inr[OF tr]
  have fee: "fee = (if rescheduleCount (bookings d ! bid) = 0 then Num 0
                else Math_round (js_mul (price (bookings d ! bid)) (Num 0.1)))"
    using inv by (simp add: rescheduleFeeOf_def)
  have bk: "bookings d' = bookings d1"
    unfolding d' by (simp add: Let_def addNotification_def chargeRescheduleFee_def)
  have cnt: "rescheduleCount (bookings d' ! bid) = rescheduleCount (bookings d ! bid) + 1"
    using inv by (simp add: bk rescheduleUpdates_count)
  have pay: "payments d' =
            (if js_gt fee (Num 0)
             then payments d @ [\<lparr>p_bookingId = bid, p_studentId = studentId (bookings d ! bid),
                    p_amount = fee, p_type = ''reschedule_fee'', p_status = ''pendente''\<rparr>]
             else payments d)"
    unfolding d' using inv
    by (simp add: Let_def addNotification_def chargeRescheduleFee_def)
  from fee cnt pay show ?thesis by blast
qed

text \<open>
  Booking 0 of price 140, moved once for free to 11:00 and then again to 12:00: the second
  move costs 14, and the count goes from 1 to 2.
\<close>

theorem reschedule_fee_witness:
  "fst (rescheduleBooking (Some ''s1'') reqMove2 2000 dbMoved) = Inr (Num 14)
   \<and> rescheduleCount (bookings dbMoved ! 0) = 1
   \<and> rescheduleCount (bookings (snd (rescheduleBooking (Some ''s1'') reqMove2 2000 dbMoved)) ! 0)
       = 2
   \<and> map p_amount (payments (snd (rescheduleBooking (Some ''s1'') reqMove2 2000 dbMoved)))
       = [Num 28, Num 14]"
proof -
  have ok: "fst (rescheduleBooking (Some ''s1'') reqMove2 2000 dbMoved) = Inr (Num 14)"
    by code_simp
  then have eq: "rescheduleBooking (Some ''s1'') reqMove2 2000 dbMoved
      = (Inr (Num 14), snd (rescheduleBooking (Some ''s1'') reqMove2 2000 dbMoved))"
    by (simp add: prod_eq_iff)
  have b: "rs_bookingId reqMove2 = Some 0" by (simp add: reqMove2_def)
  have c: "rescheduleCount (bookings dbMoved ! 0) = 1" by code_simp
  have p: "map p_amount (payments dbMoved) = [Num 28]" by code_simp
  from reschedule_fee[OF eq b] have
    cnt: "rescheduleCount (bookings (snd (rescheduleBooking (Some ''s1'') reqMove2 2000 dbMoved)) ! 0)
       = rescheduleCount (bookings dbMoved ! 0) + 1" and
    pay: "payments (snd (rescheduleBooking (Some ''s1'') reqMove2 2000 dbMoved)) =
            (if js_gt (Num 14) (Num 0)
             then payments dbMoved @ [\<lparr>p_bookingId = 0,
                    p_studentId = studentId (bookings dbMoved ! 0),
                    p_amount = Num 14, p_type = ''reschedule_fee'', p_status = ''pendente''\<rparr>]
             else payments dbMoved)"
    by blast+
  from cnt c have c2:
    "rescheduleCount (bookings (snd (rescheduleBooking (Some ''s1'') reqMove2 2000 dbMoved)) ! 0)
       = 2" by simp
  from pay p have p2:
    "map p_amount (payments (snd (rescheduleBooking (Some ''s1'') reqMove2 2000 dbMoved)))
       = [Num 28, Num 14]" by simp
  from ok c c2 p2 show ?thesis by blast
qed

text \<open>
  The claim as stated fails twice. Booking 0 of instructor \<open>i2\<close> costs 85; its second
  reschedule charges 9, not 8.5. Booking 0 of instructor \<open>i1\<close> costs 140; its first
  reschedule changes the duration, which leaves the stored price \<open>NaN\<close>, and its second
  reschedule then computes the fee \<open>NaN\<close> from that stored price, not 14 from the
  original one, and charges nothing.
\<close>

theorem reschedule_fee_counterexample:
  "(let d0 = run [CreateBooking (Some ''s1'') req85 0,
                  RescheduleBooking (Some ''s1'') reqMove 1000] db0
    in map (\<lambda>b. (price b, rescheduleCount b)) (bookings d0) = [(Num 85, 1)]
       \<and> fst (rescheduleBooking (Some ''s1'') reqMove2 2000 d0) = Inr (Num 9)
       \<and> js_mul (Num 85) (Num 0.1) = Num (17 / 2))
   \<and> (let d1 = run [RescheduleBooking (Some ''s1'') reqDur 1000] dbA
       in map price (bookings dbA) = [Num 140]
          \<and> map (\<lambda>b. (price b, rescheduleCount b)) (bookings d1) = [(NaN, 1)]
          \<and> fst (rescheduleBooking (Some ''s1'') reqMove2 2000 d1) = Inr NaN
          \<and> Math_round (js_mul (Num 140) (Num 0.1)) = Num 14
          \<and> payments (snd (rescheduleBooking (Some ''s1'') reqMove2 2000 d1)) = payments d1)"
  by code_simp

section \<open>The validation task\<close>

text \<open>
  What the sources do: when the student's tax number, the instructor's tax number and the
  vehicle plate are all on file, completing a booking enqueues one validation document
  for it, with status \<open>pending\<close> and no attempts made, which is the specification's
  pending task at attempt 0. When one of the three is missing, nothing is enqueued.
\<close>

lemma triggerDetranValidation_enqueues:
  assumes "studentCpf d (studentId booking) = Some a"
      and "instructorCpf d (instructorId booking) = Some i"
      and "vehiclePlate d (instructorId booking) = Some p"
  shows "detranValidationQueue (triggerDetranValidation bid booking d)
     = detranValidationQueue d @
         [\<lparr>dv_bookingId = bid, dv_cpf_aluno = a, dv_cpf_instrutor = i,
           dv_duracao_horas = js_or (actualDuration booking) (duration booking),
           dv_veiculo_placa = p,
           dv_status = ''pending'', dv_attempts = 0\<rparr>]
   \<and> spec_taskOf (last (detranValidationQueue (triggerDetranValidation bid booking d)))
       = \<lparr>vt_bookingId = bid, vt_attempt = 0, vt_state = Pending\<rparr>"
  using assms by (simp add: triggerDetranValidation_def spec_taskOf_def)

lemma triggerDetranValidation_skips:
  assumes "studentCpf d (studentId booking) = None
         \<or> instructorCpf d (instructorId booking) = None
         \<or> vehiclePlate d (instructorId booking) = None"
  shows "triggerDetranValidation bid booking d = d"
  using assms by (auto simp: triggerDetranValidation_def split: option.splits)

text \<open>
  On the concrete platform: the completed lesson of instructor \<open>i1\<close> is queued for
  validation; a lesson of instructor \<open>i2\<close>, who has no plate on file, is completed without
  being queued.
\<close>

lemma validation_queue_examples:
  "map dv_bookingId (detranValidationQueue dbCompleted) = [0]
   \<and> map dv_status (detranValidationQueue dbCompleted) = [''pending'']
   \<and> (case markLessonCompleted (Some ''i2'')
             \<lparr>lc_bookingId = Some 0, lc_actualDuration = Num 1\<rparr> 36000000
             (run [CreateBooking (Some ''s1'') req85 0] db0) of (r, d') \<Rightarrow>
         r = Inr 0 \<and> map status (bookings d') = [CONCLUIDA]
         \<and> detranValidationQueue d' = [])"
  by code_simp

text \<open>
  C10. On the specification's state machine: a task at attempt 0 whose certification call
  times out goes to manual review after that single call, whatever outcomes a retry would
  have met; a task whose calls fail with transient errors is retried, is still pending
  after the first and the second failure, and reaches manual review with the third, after
  three calls in all; and each retry waits a constant factor longer than the one before.
\<close>

theorem validation_timeout_and_retries:
  "spec_validationRun (Timeout # outcomes)
      \<lparr>vt_bookingId = b, vt_attempt = 0, vt_state = Pending\<rparr>
     = (\<lparr>vt_bookingId = b, vt_attempt = 0, vt_state = RequiresManualReview\<rparr>, 1)
   \<and> spec_validationRun [TransientError]
        \<lparr>vt_bookingId = b, vt_attempt = 0, vt_state = Pending\<rparr>
       = (\<lparr>vt_bookingId = b, vt_attempt = 1, vt_state = Pending\<rparr>, 1)
   \<and> spec_validationRun [TransientError, TransientError]
        \<lparr>vt_bookingId = b, vt_attempt = 0, vt_state = Pending\<rparr>
       = (\<lparr>vt_bookingId = b, vt_attempt = 2, vt_state = Pending\<rparr>, 2)
   \<and> spec_validationRun (TransientError # TransientError # TransientError # outcomes)
        \<lparr>vt_bookingId = b, vt_attempt = 0, vt_state = Pending\<rparr>
       = (\<lparr>vt_bookingId = b, vt_attempt = 3, vt_state = RequiresManualReview\<rparr>, 3)
   \<and> spec_validationRun (TransientError # TransientError # Success # outcomes)
        \<lparr>vt_bookingId = b, vt_attempt = 0, vt_state = Pending\<rparr>
       = (\<lparr>vt_bookingId = b, vt_attempt = 2, vt_state = Validated\<rparr>, 3)
   \<and> spec_backoffDelay firstDelay factor (Suc attempt)
       = factor * spec_backoffDelay firstDelay factor attempt"
proof -
  have stop: "\<And>os t. vt_state t \<noteq> Pending \<Longrightarrow> spec_validationRun os t = (t, 0)"
  proof -
    fix os :: "CertifyOutcome list" and t :: ValidationTask
    assume "vt_state t \<noteq> Pending"
    then show "spec_validationRun os t = (t, 0)" by (cases os) simp_all
  qed
  show ?thesis
    by (simp add: spec_validationStep_def spec_backoffDelay_def stop)
qed

end
